theory Spec2Isabelle
  imports Main "HOL-Library.Word"
begin

section \<open>Values, exceptions and the outside world\<close>

text \<open>
  The script \<^verbatim>\<open>pg_dump_restore.py\<close> is a straight line of calls into libraries and
  services: HTTP, JSON, base64, zlib, the container runtime, a subprocess, a database
  driver.  None of them is part of the repository, so each is a field of a record
  \<open>world\<close> that says what the call answers; the control flow between the calls, written
  in the script itself, is what the definitions below translate.
\<close>

type_synonym bytes = "8 word list"

text \<open>Python values that travel through the script: parsed JSON and database columns.\<close>

datatype pyval =
    PNone
  | PBool bool
  | PInt int
  | PStr string
  | PList "pyval list"
  | PDict "(string \<times> pyval) list"

text \<open>
  Exceptions.  \<open>SystemExit n\<close> is what \<^verbatim>\<open>sys.exit(n)\<close> raises; every other exception
  carries its class and the text \<^verbatim>\<open>str(e)\<close>.  \<open>LibraryError\<close> stands for the error
  classes of the libraries (\<^verbatim>\<open>binascii.Error\<close>, \<^verbatim>\<open>zlib.error\<close>,
  \<^verbatim>\<open>UnicodeDecodeError\<close>, \<^verbatim>\<open>psycopg2.Error\<close>, \<^verbatim>\<open>docker.errors.APIError\<close>, ...), all of
  them subclasses of \<^verbatim>\<open>Exception\<close>.  Only the exception in flight is kept; the
  \<^verbatim>\<open>__context__\<close> chain that Python prints in a traceback is not.
\<close>

datatype exn_class =
    KeyboardInterrupt
  | NameError
  | UnboundLocalError
  | IndexError
  | KeyError
  | TypeError
  | JSONDecodeError
  | CalledProcessError
  | LibraryError string

datatype exn = SystemExit int | Raised exn_class string

fun is_Exception :: "exn \<Rightarrow> bool" where
  "is_Exception (SystemExit _) = False"
| "is_Exception (Raised KeyboardInterrupt _) = False"
| "is_Exception (Raised _ _) = True"

fun is_JSONDecodeError :: "exn \<Rightarrow> bool" where
  "is_JSONDecodeError (Raised JSONDecodeError _) = True"
| "is_JSONDecodeError _ = False"

fun is_CalledProcessError :: "exn \<Rightarrow> bool" where
  "is_CalledProcessError (Raised CalledProcessError _) = True"
| "is_CalledProcessError _ = False"

fun str_exn :: "exn \<Rightarrow> string" where
  "str_exn (SystemExit n) = ''''"
| "str_exn (Raised _ m) = m"

datatype level = DEBUG | INFO | WARNING | ERROR

fun level_no :: "level \<Rightarrow> nat" where
  "level_no DEBUG = 10"
| "level_no INFO = 20"
| "level_no WARNING = 30"
| "level_no ERROR = 40"

text \<open>
  Every call that reaches outside the process leaves an event, in program order, at the
  moment it is invoked (whether or not it then raises).
\<close>

datatype event =
    Log level string
  | LogValue level pyval
  | HttpGet string
  | HttpPost string string
  | DockerFromEnv
  | ContainersRun string "string list" "(nat \<times> nat) list"
  | Sleep nat
  | SubprocessRun "string list" bytes
  | PgConnect string string string nat string
  | PgCursor
  | PgExecute string
  | PgFetchall
  | CursorClose
  | ConnectionClose
  | ContainerStop string
  | ContainerRemove string
  | Print string

record response =
  status_code :: int
  resp_text :: string

text \<open>
  The answers of the outside world.  A function field is the answer for each argument;
  \<open>exn option\<close> is a call that returns nothing (\<open>None\<close>) or raises.  A container
  handle is its \<^verbatim>\<open>id\<close>.  \<open>cursor_execute\<close> answers a statement with its result set,
  the list of tuples that \<^verbatim>\<open>fetchall\<close> hands out.  \<open>zlib_inflate\<close> is what zlib does
  with a stream once its first two bytes have passed the check that the window bits ask
  for (see \<open>zlib_decompress\<close> below).
\<close>

record world =
  requests_get :: "string \<Rightarrow> exn + response"
  requests_post :: "string \<Rightarrow> string \<Rightarrow> exn + response"
  json_loads :: "string \<Rightarrow> exn + pyval"
  json_dumps :: "pyval \<Rightarrow> exn + string"
  b64decode :: "pyval \<Rightarrow> exn + bytes"
  zlib_inflate :: "bytes \<Rightarrow> int \<Rightarrow> exn + bytes"
  bytes_decode :: "bytes \<Rightarrow> string \<Rightarrow> exn + string"
  str_encode :: "string \<Rightarrow> exn + bytes"
  docker_from_env :: "exn option"
  containers_run :: "string \<Rightarrow> string list \<Rightarrow> (nat \<times> nat) list \<Rightarrow> exn + string"
  subprocess_run :: "string list \<Rightarrow> bytes \<Rightarrow> exn + int"
  container_stop :: "string \<Rightarrow> exn option"
  container_remove :: "string \<Rightarrow> exn option"
  psycopg2_connect :: "string \<Rightarrow> string \<Rightarrow> string \<Rightarrow> nat \<Rightarrow> string \<Rightarrow> exn option"
  connection_cursor :: "exn option"
  cursor_execute :: "string \<Rightarrow> exn + pyval list list"
  cursor_fetchall :: "exn option"
  cursor_close :: "exn option"
  connection_close :: "exn option"

section \<open>Statements: state passing with exceptions\<close>

text \<open>
  The state is the trace of events so far and the variables whose binding decides
  control flow: the module-level \<^verbatim>\<open>container\<close> of the main block, and the locals
  \<^verbatim>\<open>connection\<close> and \<^verbatim>\<open>cursor\<close> of \<^verbatim>\<open>get_db_records\<close> (\<open>None\<close> and \<open>False\<close>
  are "not bound yet").
\<close>

record state =
  trace :: "event list"
  container :: "string option"
  connection :: bool
  cursor :: bool

type_synonym 'a prog = "state \<Rightarrow> (exn + 'a) \<times> state"

definition ret :: "'a \<Rightarrow> 'a prog" where
  "ret x = (\<lambda>s. (Inr x, s))"

definition raise :: "exn \<Rightarrow> 'a prog" where
  "raise e = (\<lambda>s. (Inl e, s))"

definition seq :: "'a prog \<Rightarrow> ('a \<Rightarrow> 'b prog) \<Rightarrow> 'b prog" where
  "seq m f = (\<lambda>s. case m s of (Inl e, s') \<Rightarrow> (Inl e, s') | (Inr x, s') \<Rightarrow> f x s')"

definition lift :: "exn + 'a \<Rightarrow> 'a prog" where
  "lift r = (\<lambda>s. (r, s))"

definition lift_unit :: "exn option \<Rightarrow> unit prog" where
  "lift_unit r = (\<lambda>s. (case r of None \<Rightarrow> Inr () | Some e \<Rightarrow> Inl e, s))"

definition emit :: "event \<Rightarrow> unit prog" where
  "emit ev = (\<lambda>s. (Inr (), s\<lparr>trace := trace s @ [ev]\<rparr>))"

text \<open>\<^verbatim>\<open>try: body except C as e: handler e\<close>: a raise that \<open>C\<close> matches is handled.\<close>

definition try_except :: "'a prog \<Rightarrow> (exn \<Rightarrow> bool) \<Rightarrow> (exn \<Rightarrow> 'a prog) \<Rightarrow> 'a prog" where
  "try_except body catches handler =
     (\<lambda>s. case body s of
             (Inl e, s') \<Rightarrow> if catches e then handler e s' else (Inl e, s')
           | (Inr x, s') \<Rightarrow> (Inr x, s'))"

text \<open>
  \<^verbatim>\<open>try: body finally: fin\<close>: \<open>fin\<close> runs after the body however the body ended; a
  raise in \<open>fin\<close> replaces the body's outcome, otherwise the body's outcome stands.
\<close>

definition try_finally :: "'a prog \<Rightarrow> unit prog \<Rightarrow> 'a prog" where
  "try_finally body fin =
     (\<lambda>s. case body s of
             (r, s') \<Rightarrow> (case fin s' of
                           (Inl e, s'') \<Rightarrow> (Inl e, s'')
                         | (Inr _, s'') \<Rightarrow> (r, s'')))"

definition sys_exit :: "int \<Rightarrow> 'a prog" where
  "sys_exit n = raise (SystemExit n)"

text \<open>
  \<^verbatim>\<open>logging.basicConfig(level={'debug': ..., 'warning': ..., 'info': ...}.get('info'))\<close>;
  a level of \<^verbatim>\<open>None\<close> would leave the root logger at \<^verbatim>\<open>WARNING\<close>.  A record below the
  root level is dropped.
\<close>

definition root_level :: level where
  "root_level =
     (case map_of [(''debug'', DEBUG), (''warning'', WARNING), (''info'', INFO)] ''info'' of
        Some l \<Rightarrow> l
      | None \<Rightarrow> WARNING)"

definition log :: "level \<Rightarrow> string \<Rightarrow> unit prog" where
  "log l m = (if level_no root_level \<le> level_no l then emit (Log l m) else ret ())"

definition log_value :: "level \<Rightarrow> pyval \<Rightarrow> unit prog" where
  "log_value l v = (if level_no root_level \<le> level_no l then emit (LogValue l v) else ret ())"

text \<open>
  \<^verbatim>\<open>v[key]\<close> for a string key, and \<^verbatim>\<open>xs[i]\<close> on a list for an index that is not
  negative.
\<close>

fun subscript :: "pyval \<Rightarrow> string \<Rightarrow> exn + pyval" where
  "subscript (PDict kvs) k =
     (case map_of kvs k of
        Some v \<Rightarrow> Inr v
      | None \<Rightarrow> Inl (Raised KeyError ([CHR 0x27] @ k @ [CHR 0x27])))"
| "subscript (PList _) k = Inl (Raised TypeError ''list indices must be integers or slices, not str'')"
| "subscript (PStr _) k =
     Inl (Raised TypeError (''string indices must be integers, not '' @ [CHR 0x27] @ ''str'' @ [CHR 0x27]))"
| "subscript PNone k =
     Inl (Raised TypeError ([CHR 0x27] @ ''NoneType'' @ [CHR 0x27] @ '' object is not subscriptable''))"
| "subscript (PBool _) k =
     Inl (Raised TypeError ([CHR 0x27] @ ''bool'' @ [CHR 0x27] @ '' object is not subscriptable''))"
| "subscript (PInt _) k =
     Inl (Raised TypeError ([CHR 0x27] @ ''int'' @ [CHR 0x27] @ '' object is not subscriptable''))"

definition index_at :: "'a list \<Rightarrow> nat \<Rightarrow> exn + 'a" where
  "index_at xs i =
     (if i < length xs then Inr (xs ! i) else Inl (Raised IndexError ''list index out of range''))"

section \<open>The functions of the script\<close>

definition nl :: string where
  "nl = [CHR 0x0A]"

subsection \<open>\<^verbatim>\<open>get_postgres_dump\<close>\<close>

definition problem_url :: "string \<Rightarrow> string" where
  "problem_url access_token =
     ''https://hackattic.com/challenges/backup_restore/problem?access_token='' @ access_token"

definition get_postgres_dump :: "world \<Rightarrow> string \<Rightarrow> pyval prog" where
  "get_postgres_dump w access_token =
     (let url = problem_url access_token in
      seq (log INFO (''Getting PostgreSQL dump from '' @ url)) (\<lambda>_.
      seq (emit (HttpGet url)) (\<lambda>_.
      seq (lift (requests_get w url)) (\<lambda>response.
      if status_code response \<noteq> 200 then
        seq (log ERROR (''Failed to get PostgreSQL dump from '' @ url @ nl @ resp_text response))
          (\<lambda>_. sys_exit 1)
      else
        seq (try_except (lift (json_loads w (resp_text response))) is_JSONDecodeError
               (\<lambda>e. seq (log ERROR (''Failed to parse json output from '' @ url @ nl @ str_exn e))
                      (\<lambda>_. sys_exit 1)))
          (\<lambda>dump. lift (subscript dump ''dump''))))))"

subsection \<open>\<^verbatim>\<open>decompress_and_decode_dump\<close>\<close>

definition MAX_WBITS :: int where
  "MAX_WBITS = 15"

text \<open>
  \<^verbatim>\<open>zlib.decompress(data, wbits)\<close>.  The window bits choose the container, as the
  manual of zlib has it: 8 to 15 a zlib stream, 16 + (8 to 15) a gzip stream and nothing
  else, 32 + (8 to 15) either of the two, told apart by the first two bytes.  A gzip
  stream starts with the bytes \<open>1f 8b\<close>; the first two bytes of a zlib stream, read as
  one number, are a multiple of 31.  A stream whose first two bytes are not what the window
  bits allow is rejected with \<^verbatim>\<open>incorrect header check\<close>; what happens to a stream that
  passes is the library's business, \<open>zlib_inflate\<close>.
\<close>

definition gzip_magic :: "bytes \<Rightarrow> bool" where
  "gzip_magic data = (take 2 data = [0x1f, 0x8b])"

definition zlib_check :: "bytes \<Rightarrow> bool" where
  "zlib_check data =
     (case data of
        b0 # b1 # _ \<Rightarrow> (unat b0 * 256 + unat b1) mod 31 = 0
      | _ \<Rightarrow> False)"

definition incorrect_header :: exn where
  "incorrect_header =
     Raised (LibraryError ''zlib.error'') ''Error -3 while decompressing data: incorrect header check''"

definition truncated_stream :: exn where
  "truncated_stream =
     Raised (LibraryError ''zlib.error'')
       ''Error -5 while decompressing data: incomplete or truncated stream''"

definition zlib_decompress :: "world \<Rightarrow> bytes \<Rightarrow> int \<Rightarrow> exn + bytes" where
  "zlib_decompress w data wbits =
     (if 24 \<le> wbits \<and> wbits \<le> 31 then
        (if length data < 2 then Inl truncated_stream
         else if gzip_magic data then zlib_inflate w data wbits
         else Inl incorrect_header)
      else if 40 \<le> wbits \<and> wbits \<le> 47 then
        (if length data < 2 then Inl truncated_stream
         else if gzip_magic data \<or> zlib_check data then zlib_inflate w data wbits
         else Inl incorrect_header)
      else if 8 \<le> wbits \<and> wbits \<le> 15 then
        (if length data < 2 then Inl truncated_stream
         else if zlib_check data then zlib_inflate w data wbits
         else Inl incorrect_header)
      else zlib_inflate w data wbits)"

definition decompress_and_decode_dump :: "world \<Rightarrow> pyval \<Rightarrow> string prog" where
  "decompress_and_decode_dump w dump =
     seq (log INFO ''Decompressing and decoding dump'') (\<lambda>_.
     seq (lift (b64decode w dump)) (\<lambda>raw.
     seq (lift (zlib_decompress w raw (16 + MAX_WBITS))) (\<lambda>plain.
     lift (bytes_decode w plain ''utf-8''))))"

subsection \<open>\<^verbatim>\<open>get_db_records\<close>\<close>

definition QUERY :: string where
  "QUERY = ''select ssn from public.criminal_records where status='' @ [CHR 0x27] @ ''alive'' @ [CHR 0x27]"

text \<open>\<^verbatim>\<open>[record[0] for record in table_records]\<close>; an empty tuple has no column 0.\<close>

fun first_column :: "pyval list list \<Rightarrow> exn + pyval list" where
  "first_column [] = Inr []"
| "first_column (record # table_records) =
     (case record of
        [] \<Rightarrow> Inl (Raised IndexError ''tuple index out of range'')
      | v # _ \<Rightarrow> (case first_column table_records of
                    Inl e \<Rightarrow> Inl e
                  | Inr vs \<Rightarrow> Inr (v # vs)))"

text \<open>
  Reading a local that no assignment has reached raises \<^verbatim>\<open>UnboundLocalError\<close>, a
  subclass of \<^verbatim>\<open>NameError\<close>.  The connection and cursor objects define no truth value
  of their own, so a bound \<^verbatim>\<open>connection\<close> is true.
\<close>

definition unbound_local :: "string \<Rightarrow> exn" where
  "unbound_local x =
     Raised UnboundLocalError
       (''cannot access local variable '' @ [CHR 0x27] @ x @ [CHR 0x27] @
        '' where it is not associated with a value'')"

definition read_connection :: "bool prog" where
  "read_connection = (\<lambda>s. if connection s then (Inr True, s) else (Inl (unbound_local ''connection''), s))"

definition read_cursor :: "unit prog" where
  "read_cursor = (\<lambda>s. if cursor s then (Inr (), s) else (Inl (unbound_local ''cursor''), s))"

definition assign_connection :: "unit prog" where
  "assign_connection = (\<lambda>s. (Inr (), s\<lparr>connection := True\<rparr>))"

definition assign_cursor :: "unit prog" where
  "assign_cursor = (\<lambda>s. (Inr (), s\<lparr>cursor := True\<rparr>))"

definition enter_get_db_records :: "unit prog" where
  "enter_get_db_records = (\<lambda>s. (Inr (), s\<lparr>connection := False, cursor := False\<rparr>))"

definition get_db_records_try :: "world \<Rightarrow> string \<Rightarrow> string \<Rightarrow> string \<Rightarrow> string \<Rightarrow> nat \<Rightarrow> pyval prog" where
  "get_db_records_try w usr pwd hst db port =
     seq (emit (PgConnect usr pwd hst port db)) (\<lambda>_.
     seq (lift_unit (psycopg2_connect w usr pwd hst port db)) (\<lambda>_.
     seq assign_connection (\<lambda>_.
     seq read_connection (\<lambda>_.
     seq (emit PgCursor) (\<lambda>_.
     seq (lift_unit (connection_cursor w)) (\<lambda>_.
     seq assign_cursor (\<lambda>_.
     seq read_cursor (\<lambda>_.
     seq (emit (PgExecute QUERY)) (\<lambda>_.
     seq (lift (cursor_execute w QUERY)) (\<lambda>result_set.
     seq read_cursor (\<lambda>_.
     seq (emit PgFetchall) (\<lambda>_.
     seq (lift_unit (cursor_fetchall w)) (\<lambda>_.
     seq (lift (first_column result_set)) (\<lambda>ssns.
     ret (PDict [(''alive_ssns'', PList ssns)])))))))))))))))"

definition get_db_records_except :: "exn \<Rightarrow> pyval prog" where
  "get_db_records_except error =
     seq (log ERROR (''Error while fetching data from PostgreSQL: '' @ str_exn error)) (\<lambda>_.
     ret PNone)"

definition get_db_records_finally :: "world \<Rightarrow> unit prog" where
  "get_db_records_finally w =
     seq read_connection (\<lambda>c.
     if c then
       seq read_cursor (\<lambda>_.
       seq (emit CursorClose) (\<lambda>_.
       seq (lift_unit (cursor_close w)) (\<lambda>_.
       seq read_connection (\<lambda>_.
       seq (emit ConnectionClose) (\<lambda>_.
       seq (lift_unit (connection_close w)) (\<lambda>_.
       log DEBUG ''PostgreSQL connection is closed''))))))
     else ret ())"

text \<open>
  The value of the \<^verbatim>\<open>try\<close> statement is what the function returns: the dictionary of
  the \<^verbatim>\<open>return\<close> in the body, or \<^verbatim>\<open>None\<close> when the handler has run and control falls
  off the end of the function.
\<close>

definition get_db_records :: "world \<Rightarrow> string \<Rightarrow> string \<Rightarrow> string \<Rightarrow> string \<Rightarrow> nat \<Rightarrow> pyval prog" where
  "get_db_records w usr pwd hst db port =
     seq enter_get_db_records (\<lambda>_.
     try_finally
       (try_except (get_db_records_try w usr pwd hst db port) is_Exception get_db_records_except)
       (get_db_records_finally w))"

subsection \<open>\<^verbatim>\<open>submit_solution\<close>\<close>

definition solve_url :: "string \<Rightarrow> string" where
  "solve_url access_token =
     ''https://hackattic.com/challenges/backup_restore/solve?access_token='' @ access_token @
     ''&playground=1''"

definition submit_solution :: "world \<Rightarrow> string \<Rightarrow> pyval \<Rightarrow> string prog" where
  "submit_solution w access_token data =
     (let url = solve_url access_token in
      seq (log INFO (''Submitting solution to '' @ url)) (\<lambda>_.
      seq (lift (json_dumps w data)) (\<lambda>body.
      seq (emit (HttpPost url body)) (\<lambda>_.
      seq (lift (requests_post w url body)) (\<lambda>response.
      if status_code response \<noteq> 200 then
        seq (log ERROR (''Failed to submit solution to '' @ url @ nl @ resp_text response))
          (\<lambda>_. sys_exit 1)
      else
        seq (log DEBUG (''Solution submitted to '' @ url)) (\<lambda>_.
        ret (resp_text response)))))))"

subsection \<open>The version pattern\<close>

text \<open>
  \<^verbatim>\<open>re.findall(r'(?:Dumped from database version )([0-9\.]+)', dump)\<close>.  The pattern is
  the literal marker followed by a greedy, non-empty run of digits and dots, which is the
  one group.  \<open>match_at\<close> tries the pattern at the start of its argument and returns the
  group and the text after the match; \<open>re_findall\<close> scans from left to right, resumes
  after each match, and returns the groups.  Nothing follows the group in the pattern, so
  the greedy run is never shortened.  The pattern tells apart only the characters of the
  marker, the ten ASCII digits and the dot; every other character of the text, whatever
  its code point, is just a character that matches none of them.
\<close>

definition marker :: string where
  "marker = ''Dumped from database version ''"

definition is_version_char :: "char \<Rightarrow> bool" where
  "is_version_char c = (c \<in> set ''0123456789.'')"

definition match_at :: "string \<Rightarrow> (string \<times> string) option" where
  "match_at s =
     (if take (length marker) s = marker then
        (let after = drop (length marker) s;
             version = takeWhile is_version_char after
         in if version = [] then None else Some (version, dropWhile is_version_char after))
      else None)"

function re_findall :: "string \<Rightarrow> string list" where
  "re_findall [] = []"
| "re_findall (c # cs) =
     (case match_at (c # cs) of
        Some (version, rest) \<Rightarrow> version # re_findall rest
      | None \<Rightarrow> re_findall cs)"
  by pat_completeness auto
termination
proof (relation "measure length")
  show "wf (measure length)" by simp
next
  fix c :: char and cs x2 version rest
  assume m: "match_at (c # cs) = Some x2" and x: "(version, rest) = x2"
  from m x have "rest = dropWhile is_version_char (drop (length marker) (c # cs))"
    by (auto simp: match_at_def Let_def split: if_splits)
  moreover have "length (dropWhile is_version_char (drop (length marker) (c # cs)))
                   \<le> length (drop (length marker) (c # cs))"
    by (rule length_dropWhile_le)
  moreover have "length (drop (length marker) (c # cs)) < length (c # cs)"
    by (simp add: marker_def)
  ultimately show "(rest, c # cs) \<in> measure length" by simp
next
  fix c :: char and cs
  show "(cs, c # cs) \<in> measure length" by simp
qed

definition extract_db_version :: "string \<Rightarrow> exn + string" where
  "extract_db_version dump = index_at (re_findall dump) 0"

subsection \<open>The main block\<close>

definition username :: string where
  "username = ''postgres''"

definition db_name :: string where
  "db_name = ''postgres''"

text \<open>
  \<^verbatim>\<open>container\<close> is a module-level name: reading it before the assignment has happened
  raises \<^verbatim>\<open>NameError\<close>.
\<close>

definition undefined_name :: "string \<Rightarrow> exn" where
  "undefined_name x =
     Raised NameError (''name '' @ [CHR 0x27] @ x @ [CHR 0x27] @ '' is not defined'')"

definition read_container :: "string prog" where
  "read_container =
     (\<lambda>s. case container s of
             Some c \<Rightarrow> (Inr c, s)
           | None \<Rightarrow> (Inl (undefined_name ''container''), s))"

definition assign_container :: "string \<Rightarrow> unit prog" where
  "assign_container c = (\<lambda>s. (Inr (), s\<lparr>container := Some c\<rparr>))"

definition postgres_environment :: "string list" where
  "postgres_environment =
     [''POSTGRES_USER='' @ username, ''POSTGRES_DB='' @ db_name, ''POSTGRES_PASSWORD='' @ username]"

definition provision :: "world \<Rightarrow> string \<Rightarrow> unit prog" where
  "provision w db_version =
     (let image = ''postgres:'' @ db_version;
          environment = postgres_environment;
          ports = [(5432, 5432)]
      in seq (emit (ContainersRun image environment ports)) (\<lambda>_.
         seq (lift (containers_run w image environment ports)) (\<lambda>c.
         seq (assign_container c) (\<lambda>_.
         seq (emit (Sleep 2)) (\<lambda>_.
         seq read_container (\<lambda>cid.
         seq (log INFO (''Launched PostgreSQL container '' @ cid)) (\<lambda>_.
         seq read_container (\<lambda>cid.
         log INFO (''Restoring PostgreSQL dump to '' @ cid)))))))))"

text \<open>
  The restore step.  \<^verbatim>\<open>stdout\<close> is not captured by the call, so \<^verbatim>\<open>restore.stdout\<close> is
  \<^verbatim>\<open>None\<close> in the message.  \<^verbatim>\<open>sys.exit(1)\<close> inside the \<^verbatim>\<open>try\<close> raises \<^verbatim>\<open>SystemExit\<close>,
  which the \<^verbatim>\<open>except subprocess.CalledProcessError\<close> clause does not match.
\<close>

definition restore_dump :: "world \<Rightarrow> string \<Rightarrow> unit prog" where
  "restore_dump w dump =
     try_except
       (seq read_container (\<lambda>cid.
        seq (lift (str_encode w dump)) (\<lambda>input.
        (let args = [''docker'', ''exec'', ''-i'', cid, ''psql'', ''-d'', db_name, ''-U'', username,
                     ''-h'', ''localhost'', ''-p'', ''5432'']
         in seq (emit (SubprocessRun args input)) (\<lambda>_.
            seq (lift (subprocess_run w args input)) (\<lambda>returncode.
            if returncode \<noteq> 0 then
              seq read_container (\<lambda>cid.
              seq (log ERROR (''Failed to restore PostgreSQL dump to '' @ cid @ nl @ ''None''))
                (\<lambda>_. sys_exit 1))
            else
              seq read_container (\<lambda>cid.
              log INFO (''Restored PostgreSQL dump to '' @ cid))))))))
       is_CalledProcessError
       (\<lambda>e. seq read_container (\<lambda>cid.
             seq (log ERROR (''Failed to restore PostgreSQL dump to '' @ cid @ nl @ str_exn e))
               (\<lambda>_. sys_exit 1)))"

text \<open>The part of the \<^verbatim>\<open>try\<close> block under the comment \<^verbatim>\<open># dealing with results\<close>.\<close>

definition deal_with_results :: "world \<Rightarrow> string \<Rightarrow> unit prog" where
  "deal_with_results w access_token =
     seq (get_db_records w username username ''localhost'' db_name 5432) (\<lambda>results.
     seq (log_value INFO results) (\<lambda>_.
     seq (submit_solution w access_token results) (\<lambda>answer.
     emit (Print answer))))"

definition main_try :: "world \<Rightarrow> string \<Rightarrow> string \<Rightarrow> string \<Rightarrow> unit prog" where
  "main_try w access_token dump db_version =
     seq (provision w db_version) (\<lambda>_.
     seq (restore_dump w dump) (\<lambda>_.
     deal_with_results w access_token))"

definition main_finally :: "world \<Rightarrow> unit prog" where
  "main_finally w =
     seq read_container (\<lambda>cid.
     seq (log INFO (''Stopping PostgreSQL container '' @ cid)) (\<lambda>_.
     seq read_container (\<lambda>cid.
     seq (emit (ContainerStop cid)) (\<lambda>_.
     seq (lift_unit (container_stop w cid)) (\<lambda>_.
     seq read_container (\<lambda>cid.
     seq (log INFO (''Stopped PostgreSQL container '' @ cid)) (\<lambda>_.
     seq read_container (\<lambda>cid.
     seq (log INFO (''Removing PostgreSQL container '' @ cid)) (\<lambda>_.
     seq read_container (\<lambda>cid.
     seq (emit (ContainerRemove cid)) (\<lambda>_.
     lift_unit (container_remove w cid))))))))))))"

text \<open>
  Everything before the \<^verbatim>\<open>try\<close>: the token from the command line, the fetch, the
  decoding, the version, the client of the container runtime.
\<close>

definition main_before :: "world \<Rightarrow> string list \<Rightarrow> (string \<times> string \<times> string) prog" where
  "main_before w argv =
     seq (lift (index_at argv 1)) (\<lambda>access_token.
     seq (get_postgres_dump w access_token) (\<lambda>encoded.
     seq (decompress_and_decode_dump w encoded) (\<lambda>dump.
     seq (lift (extract_db_version dump)) (\<lambda>db_version.
     seq (emit DockerFromEnv) (\<lambda>_.
     seq (lift_unit (docker_from_env w)) (\<lambda>_.
     ret (access_token, dump, db_version)))))))"

definition main :: "world \<Rightarrow> string list \<Rightarrow> unit prog" where
  "main w argv =
     seq (main_before w argv) (\<lambda>(access_token, dump, db_version).
     try_finally (main_try w access_token dump db_version) (main_finally w))"

definition initial :: state where
  "initial = \<lparr>trace = [], container = None, connection = False, cursor = False\<rparr>"

text \<open>The run of the script: how it ended and what it did.\<close>

definition run :: "world \<Rightarrow> string list \<Rightarrow> (exn + unit) \<times> event list" where
  "run w argv = (case main w argv initial of (r, s) \<Rightarrow> (r, trace s))"

section \<open>Notions the properties are stated with\<close>

subsection \<open>Occurrences of the version pattern\<close>

text \<open>
  \<open>version_at s\<close>: the marker stands at the start of \<open>s\<close> and a digit or a dot follows
  it.  \<open>is_space\<close> is the whitespace of ASCII.  \<open>claimed_version\<close> reads the text the
  way the specification words it: the first place where the marker is followed by a
  non-empty run of digits and dots and then by whitespace.
\<close>

definition version_at :: "string \<Rightarrow> bool" where
  "version_at s =
     (take (length marker) s = marker \<and>
      (case drop (length marker) s of [] \<Rightarrow> False | c # _ \<Rightarrow> is_version_char c))"

definition is_space :: "char \<Rightarrow> bool" where
  "is_space c = (c \<in> set [CHR '' '', CHR 0x09, CHR 0x0A, CHR 0x0B, CHR 0x0C, CHR 0x0D])"

fun claimed_version :: "string \<Rightarrow> string option" where
  "claimed_version [] = None"
| "claimed_version (c # cs) =
     (if take (length marker) (c # cs) = marker then
        (let after = drop (length marker) (c # cs);
             version = takeWhile is_version_char after
         in case dropWhile is_version_char after of
              d # _ \<Rightarrow> if version \<noteq> [] \<and> is_space d then Some version else claimed_version cs
            | [] \<Rightarrow> claimed_version cs)
      else claimed_version cs)"

subsection \<open>Traces\<close>

fun is_stop :: "event \<Rightarrow> bool" where
  "is_stop (ContainerStop _) = True"
| "is_stop _ = False"

fun is_remove :: "event \<Rightarrow> bool" where
  "is_remove (ContainerRemove _) = True"
| "is_remove _ = False"

definition is_cleanup :: "event \<Rightarrow> bool" where
  "is_cleanup ev = (is_stop ev \<or> is_remove ev)"

text \<open>
  A statement is \<open>quiet\<close> when it neither stops or removes a container nor rebinds
  \<^verbatim>\<open>container\<close>.
\<close>

definition quiet :: "'a prog \<Rightarrow> bool" where
  "quiet m =
     (\<forall>s. filter is_cleanup (trace (snd (m s))) = filter is_cleanup (trace s) \<and>
          container (snd (m s)) = container s)"

text \<open>\<open>contains xs sub\<close>: \<open>sub\<close> is a contiguous part of \<open>xs\<close>.\<close>

fun contains :: "'a list \<Rightarrow> 'a list \<Rightarrow> bool" where
  "contains [] sub = (sub = [])"
| "contains (x # xs) sub = (take (length sub) (x # xs) = sub \<or> contains xs sub)"

fun logs_text :: "string \<Rightarrow> event \<Rightarrow> bool" where
  "logs_text t (Log _ m) = contains m t"
| "logs_text t _ = False"

definition logged :: "string \<Rightarrow> event list \<Rightarrow> bool" where
  "logged t tr = list_ex (logs_text t) tr"

subsection \<open>The encoding of a dump\<close>

text \<open>
  The service encodes a dump as the specification says: UTF-8 encode, gzip compress,
  base64 encode.  The three encoders are library functions, like the decoders.
\<close>

record codec =
  utf8_encode :: "string \<Rightarrow> bytes"
  gzip_compress :: "bytes \<Rightarrow> bytes"
  b64encode :: "bytes \<Rightarrow> string"

definition encode :: "codec \<Rightarrow> string \<Rightarrow> string" where
  "encode c x = b64encode c (gzip_compress c (utf8_encode c x))"

subsection \<open>The table behind the query\<close>

text \<open>
  A row of \<^verbatim>\<open>public.criminal_records\<close>, and a server that holds the table and visits its
  rows in the given order.  The server reads the statement it is sent: it answers
  \<^verbatim>\<open>select ssn from public.criminal_records where status='v'\<close>, for whatever text \<^verbatim>\<open>v\<close>
  stands between the quotes, with one one-column tuple for each row whose status is \<^verbatim>\<open>v\<close>,
  as SQL prescribes, and any other text with a syntax error.
\<close>

record criminal_record =
  ssn :: string
  status :: string

definition select_ssn_where_status :: "criminal_record list \<Rightarrow> string \<Rightarrow> pyval list list" where
  "select_ssn_where_status rows v = map (\<lambda>r. [PStr (ssn r)]) (filter (\<lambda>r. status r = v) rows)"

definition select_prefix :: string where
  "select_prefix = ''select ssn from public.criminal_records where status=''"

definition sql_server :: "criminal_record list \<Rightarrow> string \<Rightarrow> exn + pyval list list" where
  "sql_server rows q =
     (let literal = drop (length select_prefix) q in
      if take (length select_prefix) q = select_prefix \<and> 2 \<le> length literal \<and>
         hd literal = CHR 0x27 \<and> last literal = CHR 0x27 \<and>
         CHR 0x27 \<notin> set (butlast (tl literal))
      then Inr (select_ssn_where_status rows (butlast (tl literal)))
      else Inl (Raised (LibraryError ''psycopg2.errors.SyntaxError'') ''syntax error''))"

section \<open>A concrete world\<close>

text \<open>
  One run on real data: the dump \<^verbatim>\<open>-- Dumped from database version 15.3\<close>, its gzip
  stream (with a zero timestamp), the base64 text of the stream, and a table with one
  living and one deceased person.
\<close>

definition dq :: string where
  "dq = [CHR 0x22]"

definition demo_text :: string where
  "demo_text = ''-- Dumped from database version 15.3'' @ nl"

definition demo_utf8 :: bytes where
  "demo_utf8 = map of_char demo_text"

definition demo_gzip :: bytes where
  "demo_gzip =
     [31, 139, 8, 0, 0, 0, 0, 0, 2, 3, 211, 213, 85, 112, 41, 205, 45, 72, 77, 81, 72, 43, 202,
      207, 85, 72, 73, 44, 73, 76, 74, 44, 78, 85, 40, 75, 45, 42, 206, 204, 207, 83, 48, 52,
      213, 51, 230, 2, 0, 102, 36, 116, 170, 37, 0, 0, 0]"

definition demo_b64 :: string where
  "demo_b64 = ''H4sIAAAAAAACA9PVVXApzS1ITVFIK8rPVUhJLElMSixOVShLLSrOzM9TMDTVM+YCAGYkdKolAAAA''"

definition demo_body :: string where
  "demo_body = ''{'' @ dq @ ''dump'' @ dq @ '': '' @ dq @ demo_b64 @ dq @ ''}''"

definition demo_table :: "criminal_record list" where
  "demo_table =
     [\<lparr>ssn = ''999-99-9999'', status = ''alive''\<rparr>, \<lparr>ssn = ''111-11-1111'', status = ''deceased''\<rparr>]"

definition demo_payload :: string where
  "demo_payload = ''{'' @ dq @ ''alive_ssns'' @ dq @ '': ['' @ dq @ ''999-99-9999'' @ dq @ '']}''"

definition demo_codec :: codec where
  "demo_codec =
     \<lparr>utf8_encode = map of_char,
      gzip_compress = (\<lambda>b. if b = demo_utf8 then demo_gzip else []),
      b64encode = (\<lambda>b. if b = demo_gzip then demo_b64 else [])\<rparr>"

definition demo_world :: world where
  "demo_world =
     \<lparr>requests_get = (\<lambda>url. Inr \<lparr>status_code = 200, resp_text = demo_body\<rparr>),
      requests_post = (\<lambda>url body. Inr \<lparr>status_code = 200, resp_text = ''passed''\<rparr>),
      json_loads = (\<lambda>t. if t = demo_body then Inr (PDict [(''dump'', PStr demo_b64)])
                         else Inl (Raised JSONDecodeError ''Expecting value: line 1 column 1 (char 0)'')),
      json_dumps = (\<lambda>v. if v = PDict [(''alive_ssns'', PList [PStr ''999-99-9999''])]
                         then Inr demo_payload
                         else if v = PNone then Inr ''null''
                         else Inl (Raised TypeError ''Object is not JSON serializable'')),
      b64decode = (\<lambda>v. if v = PStr demo_b64 then Inr demo_gzip
                        else Inl (Raised (LibraryError ''binascii.Error'') ''Incorrect padding'')),
      zlib_inflate = (\<lambda>b wbits. if b = demo_gzip \<and> wbits = 31 then Inr demo_utf8
                        else Inl (Raised (LibraryError ''zlib.error'')
                                    ''Error -3 while decompressing data: invalid block type'')),
      bytes_decode = (\<lambda>b enc. if b = demo_utf8 \<and> enc = ''utf-8'' then Inr demo_text
                        else Inl (Raised (LibraryError ''UnicodeDecodeError'') ''invalid start byte'')),
      str_encode = (\<lambda>t. Inr (map of_char t)),
      docker_from_env = None,
      containers_run = (\<lambda>image environment ports. Inr ''c0ffee''),
      subprocess_run = (\<lambda>args input. Inr 0),
      container_stop = (\<lambda>c. None),
      container_remove = (\<lambda>c. None),
      psycopg2_connect = (\<lambda>usr pwd hst port db. None),
      connection_cursor = None,
      cursor_execute = sql_server demo_table,
      cursor_fetchall = None,
      cursor_close = None,
      connection_close = None\<rparr>"

definition demo_argv :: "string list" where
  "demo_argv = [''pg_dump_restore.py'', ''abc123'']"

text \<open>The state of that run when it reaches the \<^verbatim>\<open>try\<close> block.\<close>

definition demo_before :: state where
  "demo_before =
     \<lparr>trace = [Log INFO (''Getting PostgreSQL dump from '' @ problem_url ''abc123''),
               HttpGet (problem_url ''abc123''),
               Log INFO ''Decompressing and decoding dump'',
               DockerFromEnv],
      container = None, connection = False, cursor = False\<rparr>"

text \<open>Variations of that world, one call answering differently in each.\<close>

definition server_error_world :: world where
  "server_error_world =
     demo_world\<lparr>requests_get :=
       (\<lambda>url. Inr \<lparr>status_code = 500, resp_text = ''Internal Server Error''\<rparr>)\<rparr>"

definition html_world :: world where
  "html_world =
     demo_world\<lparr>requests_get := (\<lambda>url. Inr \<lparr>status_code = 200, resp_text = ''<html>''\<rparr>)\<rparr>"








definition no_version_world :: world where
  "no_version_world =
     demo_world\<lparr>bytes_decode := (\<lambda>b enc. Inr ''-- PostgreSQL database dump'')\<rparr>"

definition run_fails_world :: world where
  "run_fails_world =
     demo_world\<lparr>containers_run :=
       (\<lambda>image environment ports.
          Inl (Raised (LibraryError ''docker.errors.ImageNotFound'') ''404 Client Error''))\<rparr>"

definition stop_fails_world :: world where
  "stop_fails_world =
     demo_world\<lparr>container_stop :=
       (\<lambda>c. Some (Raised (LibraryError ''docker.errors.APIError'') ''500 Server Error''))\<rparr>"

definition connect_refused_world :: world where
  "connect_refused_world =
     demo_world\<lparr>psycopg2_connect :=
       (\<lambda>usr pwd hst port db.
          Some (Raised (LibraryError ''psycopg2.OperationalError'') ''Connection refused''))\<rparr>"

definition query_fails_world :: world where
  "query_fails_world =
     demo_world\<lparr>cursor_execute :=
       (\<lambda>q. Inl (Raised (LibraryError ''psycopg2.errors.UndefinedTable'')
                    ''relation does not exist''))\<rparr>"

section \<open>Running statements\<close>

text \<open>Equations that run a statement on a state, one step at a time.\<close>

lemma log_INFO: "log INFO m = emit (Log INFO m)"
  by (simp add: log_def root_level_def)
lemma log_ERROR: "log ERROR m = emit (Log ERROR m)"
  by (simp add: log_def root_level_def)
lemma log_DEBUG: "log DEBUG m = ret ()"
  by (simp add: log_def root_level_def)
lemma log_value_INFO: "log_value INFO v = emit (LogValue INFO v)"
  by (simp add: log_value_def root_level_def)

lemma seq_emit: "seq (emit ev) f s = f () (s\<lparr>trace := trace s @ [ev]\<rparr>)"
  by (simp add: seq_def emit_def)
lemma seq_ret: "seq (ret x) f s = f x s"
  by (simp add: seq_def ret_def)
lemma seq_lift_Inr: "seq (lift (Inr x)) f s = f x s"
  by (simp add: seq_def lift_def)
lemma seq_lift_Inl: "seq (lift (Inl e)) f s = (Inl e, s)"
  by (simp add: seq_def lift_def)
lemma seq_lift_unit_None: "seq (lift_unit None) f s = f () s"
  by (simp add: seq_def lift_unit_def)
lemma seq_lift_unit_Some: "seq (lift_unit (Some e)) f s = (Inl e, s)"
  by (simp add: seq_def lift_unit_def)
lemma sys_exit_apply: "sys_exit n s = (Inl (SystemExit n), s)"
  by (simp add: sys_exit_def raise_def)
lemma ret_apply: "ret x s = (Inr x, s)"
  by (simp add: ret_def)
lemma lift_apply: "lift r s = (r, s)"
  by (simp add: lift_def)
lemma emit_apply: "emit ev s = (Inr (), s\<lparr>trace := trace s @ [ev]\<rparr>)"
  by (simp add: emit_def)
lemma lift_unit_apply: "lift_unit r s = (case r of None \<Rightarrow> Inr () | Some e \<Rightarrow> Inl e, s)"
  by (simp add: lift_unit_def)

lemmas eval_simps = log_INFO log_ERROR log_DEBUG log_value_INFO seq_emit seq_ret seq_lift_Inr
  seq_lift_Inl seq_lift_unit_None seq_lift_unit_Some sys_exit_apply ret_apply lift_apply
  emit_apply lift_unit_apply

section \<open>Quiet statements\<close>

text \<open>
  Every statement of the script except the two calls of the \<^verbatim>\<open>finally\<close> block and the
  assignment to \<^verbatim>\<open>container\<close> is quiet, and the combinators keep it so.
\<close>

lemma quiet_ret: "quiet (ret x)"
  by (simp add: quiet_def ret_def)
lemma quiet_raise: "quiet (raise e)"
  by (simp add: quiet_def raise_def)
lemma quiet_sys_exit: "quiet (sys_exit n)"
  by (simp add: sys_exit_def quiet_raise)
lemma quiet_lift: "quiet (lift r)"
  by (simp add: quiet_def lift_def)
lemma quiet_lift_unit: "quiet (lift_unit r)"
  by (simp add: quiet_def lift_unit_def)
lemma quiet_emit: "\<not> is_cleanup ev \<Longrightarrow> quiet (emit ev)"
  by (simp add: quiet_def emit_def)
lemma quiet_log: "quiet (log l m)"
  by (simp add: log_def quiet_emit quiet_ret is_cleanup_def)
lemma quiet_log_value: "quiet (log_value l m)"
  by (simp add: log_value_def quiet_emit quiet_ret is_cleanup_def)
lemma quiet_if: "quiet a \<Longrightarrow> quiet b \<Longrightarrow> quiet (if c then a else b)" by simp

lemma quiet_seq:
  assumes "quiet m" and "\<And>x. quiet (f x)"
  shows "quiet (seq m f)"
proof (unfold quiet_def, intro allI)
  fix s
  obtain r s' where ms: "m s = (r, s')" by (cases "m s")
  have 1: "filter is_cleanup (trace s') = filter is_cleanup (trace s) \<and> container s' = container s"
    using assms(1) ms by (auto simp: quiet_def dest: spec[of _ s])
  show "filter is_cleanup (trace (snd (seq m f s))) = filter is_cleanup (trace s) \<and>
        container (snd (seq m f s)) = container s"
  proof (cases r)
    case (Inl e)
    then show ?thesis using ms 1 by (simp add: seq_def)
  next
    case (Inr x)
    have "filter is_cleanup (trace (snd (f x s'))) = filter is_cleanup (trace s') \<and>
          container (snd (f x s')) = container s'"
      using assms(2)[of x] by (simp add: quiet_def)
    then show ?thesis using ms 1 Inr by (simp add: seq_def)
  qed
qed

lemma quiet_try_except:
  assumes "quiet m" and "\<And>e. quiet (h e)"
  shows "quiet (try_except m c h)"
proof (unfold quiet_def, intro allI)
  fix s
  obtain r s' where ms: "m s = (r, s')" by (cases "m s")
  have 1: "filter is_cleanup (trace s') = filter is_cleanup (trace s) \<and> container s' = container s"
    using assms(1) ms by (auto simp: quiet_def dest: spec[of _ s])
  show "filter is_cleanup (trace (snd (try_except m c h s))) = filter is_cleanup (trace s) \<and>
        container (snd (try_except m c h s)) = container s"
  proof (cases r)
    case (Inl e)
    have "filter is_cleanup (trace (snd (h e s'))) = filter is_cleanup (trace s') \<and>
          container (snd (h e s')) = container s'"
      using assms(2)[of e] by (simp add: quiet_def)
    then show ?thesis using ms 1 Inl by (simp add: try_except_def)
  next
    case (Inr x)
    then show ?thesis using ms 1 by (simp add: try_except_def)
  qed
qed

lemma quiet_try_finally:
  assumes "quiet m" and "quiet fin"
  shows "quiet (try_finally m fin)"
proof (unfold quiet_def, intro allI)
  fix s
  obtain r s' where ms: "m s = (r, s')" by (cases "m s")
  obtain r' s'' where fs: "fin s' = (r', s'')" by (cases "fin s'")
  have 1: "filter is_cleanup (trace s') = filter is_cleanup (trace s) \<and> container s' = container s"
    using assms(1) ms by (auto simp: quiet_def dest: spec[of _ s])
  have 2: "filter is_cleanup (trace s'') = filter is_cleanup (trace s') \<and> container s'' = container s'"
    using assms(2) fs by (auto simp: quiet_def dest: spec[of _ s'])
  show "filter is_cleanup (trace (snd (try_finally m fin s))) = filter is_cleanup (trace s) \<and>
        container (snd (try_finally m fin s)) = container s"
    using ms fs 1 2 by (cases r') (simp_all add: try_finally_def)
qed

lemma quiet_read_connection: "quiet read_connection"
  by (simp add: quiet_def read_connection_def)
lemma quiet_read_cursor: "quiet read_cursor"
  by (simp add: quiet_def read_cursor_def)
lemma quiet_read_container: "quiet read_container"
  by (simp add: quiet_def read_container_def split: option.splits)
lemma quiet_assign_connection: "quiet assign_connection"
  by (simp add: quiet_def assign_connection_def)
lemma quiet_assign_cursor: "quiet assign_cursor"
  by (simp add: quiet_def assign_cursor_def)
lemma quiet_enter: "quiet enter_get_db_records"
  by (simp add: quiet_def enter_get_db_records_def)

lemmas quiet_intros = quiet_ret quiet_raise quiet_sys_exit quiet_lift quiet_lift_unit quiet_log
  quiet_log_value quiet_if quiet_seq quiet_try_except quiet_try_finally quiet_read_connection
  quiet_read_cursor quiet_read_container quiet_assign_connection quiet_assign_cursor quiet_enter

lemma quiet_get_postgres_dump: "quiet (get_postgres_dump w tok)"
  unfolding get_postgres_dump_def Let_def
  by (intro quiet_intros quiet_emit) (simp_all add: is_cleanup_def)

lemma quiet_decompress: "quiet (decompress_and_decode_dump w enc)"
  unfolding decompress_and_decode_dump_def
  by (intro quiet_intros quiet_emit)

lemma quiet_main_before: "quiet (main_before w argv)"
  unfolding main_before_def
  by (intro quiet_intros quiet_emit quiet_get_postgres_dump quiet_decompress) (simp_all add: is_cleanup_def)

lemma quiet_restore_dump: "quiet (restore_dump w dump)"
  unfolding restore_dump_def Let_def
  by (intro quiet_intros quiet_emit) (simp_all add: is_cleanup_def)

lemma quiet_get_db_records: "quiet (get_db_records w usr pwd hst db port)"
  unfolding get_db_records_def get_db_records_try_def get_db_records_except_def
    get_db_records_finally_def
  by (intro quiet_intros quiet_emit) (simp_all add: is_cleanup_def)

lemma quiet_submit_solution: "quiet (submit_solution w tok data)"
  unfolding submit_solution_def Let_def
  by (intro quiet_intros quiet_emit) (simp_all add: is_cleanup_def)

lemma quiet_deal_with_results: "quiet (deal_with_results w tok)"
  unfolding deal_with_results_def
  by (intro quiet_intros quiet_emit quiet_get_db_records quiet_submit_solution) (simp_all add: is_cleanup_def)

section \<open>The main block, piece by piece\<close>

lemma main_after_before:
  "main_before w argv initial = (Inr (tok, dump, ver), s1) \<Longrightarrow>
   main w argv initial = try_finally (main_try w tok dump ver) (main_finally w) s1"
  by (simp add: main_def seq_def)

lemma main_before_clean:
  assumes "main_before w argv initial = (r, s1)"
  shows "filter is_cleanup (trace s1) = [] \<and> container s1 = None"
proof -
  have "filter is_cleanup (trace (snd (main_before w argv initial))) = filter is_cleanup (trace initial)
        \<and> container (snd (main_before w argv initial)) = container initial"
    using quiet_main_before[of w argv] by (simp add: quiet_def)
  then show ?thesis using assms by (simp add: initial_def)
qed

lemma provision_ok:
  assumes "containers_run w (''postgres:'' @ ver) postgres_environment [(5432, 5432)] = Inr c"
  shows "provision w ver s =
           (Inr (), s\<lparr>trace := trace s @
                       [ContainersRun (''postgres:'' @ ver) postgres_environment [(5432, 5432)],
                        Sleep 2,
                        Log INFO (''Launched PostgreSQL container '' @ c),
                        Log INFO (''Restoring PostgreSQL dump to '' @ c)],
                     container := Some c\<rparr>)"
  using assms
  by (simp add: provision_def Let_def eval_simps assign_container_def read_container_def seq_def)

lemma provision_fails:
  assumes "containers_run w (''postgres:'' @ ver) postgres_environment [(5432, 5432)] = Inl e"
  shows "provision w ver s =
           (Inl e, s\<lparr>trace := trace s @
                       [ContainersRun (''postgres:'' @ ver) postgres_environment [(5432, 5432)]]\<rparr>)"
  using assms by (simp add: provision_def Let_def eval_simps)

lemma main_finally_bound:
  assumes "container s = Some c"
  shows "main_finally w s =
           (case container_stop w c of
              Some e \<Rightarrow>
                (Inl e, s\<lparr>trace := trace s @
                            [Log INFO (''Stopping PostgreSQL container '' @ c), ContainerStop c]\<rparr>)
            | None \<Rightarrow>
                (case container_remove w c of None \<Rightarrow> Inr () | Some e \<Rightarrow> Inl e,
                 s\<lparr>trace := trace s @
                      [Log INFO (''Stopping PostgreSQL container '' @ c), ContainerStop c,
                       Log INFO (''Stopped PostgreSQL container '' @ c),
                       Log INFO (''Removing PostgreSQL container '' @ c), ContainerRemove c]\<rparr>))"
  using assms
  by (simp add: main_finally_def eval_simps read_container_def seq_def split: option.splits)

lemma main_finally_unbound:
  assumes "container s = None"
  shows "main_finally w s = (Inl (undefined_name ''container''), s)"
  using assms by (simp add: main_finally_def read_container_def seq_def)

lemma after_provision_quiet: "quiet (seq (restore_dump w dump) (\<lambda>_. deal_with_results w tok))"
  by (intro quiet_seq quiet_restore_dump quiet_deal_with_results)

text \<open>The shape of every run that got its container.\<close>

lemma run_provisioned:
  assumes before: "main_before w argv initial = (Inr (tok, dump, ver), s1)"
    and started: "containers_run w (''postgres:'' @ ver) postgres_environment [(5432, 5432)] = Inr c"
  shows "\<exists>r body.
           filter is_cleanup body = [] \<and>
           run w argv =
             (case container_stop w c of
                Some e \<Rightarrow>
                  (Inl e, body @ [Log INFO (''Stopping PostgreSQL container '' @ c), ContainerStop c])
              | None \<Rightarrow>
                  (case container_remove w c of None \<Rightarrow> r | Some e \<Rightarrow> Inl e,
                   body @ [Log INFO (''Stopping PostgreSQL container '' @ c), ContainerStop c,
                           Log INFO (''Stopped PostgreSQL container '' @ c),
                           Log INFO (''Removing PostgreSQL container '' @ c), ContainerRemove c]))"
proof -
  define s1' where "s1' = s1\<lparr>trace := trace s1 @
                       [ContainersRun (''postgres:'' @ ver) postgres_environment [(5432, 5432)],
                        Sleep 2,
                        Log INFO (''Launched PostgreSQL container '' @ c),
                        Log INFO (''Restoring PostgreSQL dump to '' @ c)],
                     container := Some c\<rparr>"
  define rest where "rest = seq (restore_dump w dump) (\<lambda>_. deal_with_results w tok)"
  obtain r s2 where rs: "rest s1' = (r, s2)" by (cases "rest s1'")
  have clean1: "filter is_cleanup (trace s1) = []"
    using main_before_clean[OF before] by simp
  have try_eq: "main_try w tok dump ver s1 = (r, s2)"
    using provision_ok[OF started, of s1] rs
    by (simp add: main_try_def seq_def s1'_def rest_def)
  have "quiet rest" unfolding rest_def by (rule after_provision_quiet)
  then have "filter is_cleanup (trace (snd (rest s1'))) = filter is_cleanup (trace s1')
             \<and> container (snd (rest s1')) = container s1'"
    by (simp add: quiet_def)
  then have s2: "filter is_cleanup (trace s2) = []" "container s2 = Some c"
    using rs clean1 by (simp_all add: s1'_def is_cleanup_def)
  have "main w argv initial = try_finally (main_try w tok dump ver) (main_finally w) s1"
    using before by (rule main_after_before)
  then have "run w argv =
             (case container_stop w c of
                Some e \<Rightarrow>
                  (Inl e, trace s2 @ [Log INFO (''Stopping PostgreSQL container '' @ c), ContainerStop c])
              | None \<Rightarrow>
                  (case container_remove w c of None \<Rightarrow> r | Some e \<Rightarrow> Inl e,
                   trace s2 @ [Log INFO (''Stopping PostgreSQL container '' @ c), ContainerStop c,
                           Log INFO (''Stopped PostgreSQL container '' @ c),
                           Log INFO (''Removing PostgreSQL container '' @ c), ContainerRemove c]))"
    using try_eq main_finally_bound[OF s2(2), of w]
    by (simp add: run_def try_finally_def split: option.splits)
  with s2(1) show ?thesis by blast
qed

section \<open>The functions, outcome by outcome\<close>

lemma get_postgres_dump_status:
  assumes "requests_get w (problem_url tok) = Inr r" and "status_code r \<noteq> 200"
  shows "get_postgres_dump w tok s =
        (Inl (SystemExit 1),
         s\<lparr>trace := trace s @
              [Log INFO (''Getting PostgreSQL dump from '' @ problem_url tok),
               HttpGet (problem_url tok),
               Log ERROR (''Failed to get PostgreSQL dump from '' @ problem_url tok @ nl @ resp_text r)]\<rparr>)"
  using assms by (simp add: get_postgres_dump_def Let_def eval_simps)

lemma get_postgres_dump_parse:
  assumes "requests_get w (problem_url tok) = Inr r" and "status_code r = 200"
    and "json_loads w (resp_text r) = Inl e" and "is_JSONDecodeError e"
  shows "get_postgres_dump w tok s =
        (Inl (SystemExit 1),
         s\<lparr>trace := trace s @
              [Log INFO (''Getting PostgreSQL dump from '' @ problem_url tok),
               HttpGet (problem_url tok),
               Log ERROR (''Failed to parse json output from '' @ problem_url tok @ nl @ str_exn e)]\<rparr>)"
  using assms by (simp add: get_postgres_dump_def Let_def eval_simps try_except_def seq_def)

lemma get_postgres_dump_parsed:
  assumes "requests_get w (problem_url tok) = Inr r" and "status_code r = 200"
    and "json_loads w (resp_text r) = Inr v"
  shows "get_postgres_dump w tok s =
        (subscript v ''dump'',
         s\<lparr>trace := trace s @
              [Log INFO (''Getting PostgreSQL dump from '' @ problem_url tok),
               HttpGet (problem_url tok)]\<rparr>)"
  using assms by (simp add: get_postgres_dump_def Let_def eval_simps try_except_def seq_def)

lemma decode_steps:
  "decompress_and_decode_dump w enc s =
     ((case b64decode w enc of
         Inl e \<Rightarrow> Inl e
       | Inr raw \<Rightarrow> (case zlib_decompress w raw (16 + MAX_WBITS) of
                      Inl e \<Rightarrow> Inl e
                    | Inr plain \<Rightarrow> bytes_decode w plain ''utf-8'')),
      s\<lparr>trace := trace s @ [Log INFO ''Decompressing and decoding dump'']\<rparr>)"
  by (simp add: decompress_and_decode_dump_def eval_simps seq_def lift_def split: sum.splits)

lemma demo_zlib:
  assumes "zlib_inflate w = zlib_inflate demo_world"
  shows "zlib_decompress w demo_gzip 31 = Inr demo_utf8"
  using assms by (simp add: zlib_decompress_def gzip_magic_def demo_gzip_def demo_world_def)


lemma main_stops_at_version:
  assumes "index_at argv 1 = Inr tok" and "get_postgres_dump w tok initial = (Inr enc, s1)"
    and "decompress_and_decode_dump w enc s1 = (Inr dump, s2)"
    and "extract_db_version dump = Inl e"
  shows "main w argv initial = (Inl e, s2)"
  using assms by (simp add: main_def main_before_def seq_def lift_def)

lemma demo_version: "extract_db_version demo_text = Inr ''15.3''"
  by code_simp

lemma demo_argv_token: "index_at demo_argv 1 = Inr ''abc123''"
  by (simp add: index_at_def demo_argv_def)

lemma demo_fetch:
  assumes "requests_get w = requests_get demo_world" and "json_loads w = json_loads demo_world"
  shows "get_postgres_dump w ''abc123'' s =
        (Inr (PStr demo_b64),
         s\<lparr>trace := trace s @
              [Log INFO (''Getting PostgreSQL dump from '' @ problem_url ''abc123''),
               HttpGet (problem_url ''abc123'')]\<rparr>)"
proof -
  have 1: "requests_get w (problem_url ''abc123'') = Inr \<lparr>status_code = 200, resp_text = demo_body\<rparr>"
    using assms by (simp add: demo_world_def)
  have 2: "json_loads w (resp_text \<lparr>status_code = 200, resp_text = demo_body\<rparr>) = Inr (PDict [(''dump'', PStr demo_b64)])"
    using assms by (simp add: demo_world_def)
  show ?thesis using get_postgres_dump_parsed[OF 1 _ 2, of s] by simp
qed

lemma demo_decode:
  assumes "b64decode w = b64decode demo_world" and "zlib_inflate w = zlib_inflate demo_world"
    and "bytes_decode w = bytes_decode demo_world"
  shows "decompress_and_decode_dump w (PStr demo_b64) s =
           (Inr demo_text, s\<lparr>trace := trace s @ [Log INFO ''Decompressing and decoding dump'']\<rparr>)"
  using assms
  by (simp add: decode_steps demo_world_def MAX_WBITS_def zlib_decompress_def gzip_magic_def
      demo_gzip_def)

lemma main_before_steps:
  assumes "index_at argv 1 = Inr tok" and "get_postgres_dump w tok initial = (Inr enc, s1)"
    and "decompress_and_decode_dump w enc s1 = (Inr dump, s2)"
    and "extract_db_version dump = Inr ver" and "docker_from_env w = None"
  shows "main_before w argv initial = (Inr (tok, dump, ver), s2\<lparr>trace := trace s2 @ [DockerFromEnv]\<rparr>)"
  using assms by (simp add: main_before_def seq_def lift_def eval_simps)

lemma demo_main_before:
  assumes "requests_get w = requests_get demo_world" and "json_loads w = json_loads demo_world"
    and "b64decode w = b64decode demo_world" and "zlib_inflate w = zlib_inflate demo_world"
    and "bytes_decode w = bytes_decode demo_world" and "docker_from_env w = None"
  shows "main_before w demo_argv initial = (Inr (''abc123'', demo_text, ''15.3''), demo_before)"
  using main_before_steps[OF demo_argv_token demo_fetch[OF assms(1,2)]
          demo_decode[OF assms(3-5)] demo_version assms(6)]
  by (simp add: initial_def demo_before_def)

lemmas get_db_records_defs = get_db_records_def get_db_records_try_def get_db_records_except_def
  get_db_records_finally_def enter_get_db_records_def assign_connection_def assign_cursor_def
  read_connection_def read_cursor_def

lemma get_db_records_connect_fails:
  assumes "psycopg2_connect w usr pwd hst port db = Some e"
  shows "get_db_records w usr pwd hst db port s =
           (Inl (unbound_local ''connection''),
            s\<lparr>trace := trace s @
                   PgConnect usr pwd hst port db #
                   (if is_Exception e
                    then [Log ERROR (''Error while fetching data from PostgreSQL: '' @ str_exn e)]
                    else []),
              connection := False, cursor := False\<rparr>)"
  using assms
  by (simp add: get_db_records_defs eval_simps seq_def try_except_def try_finally_def)

lemma get_db_records_cursor_fails:
  assumes "psycopg2_connect w usr pwd hst port db = None" and "connection_cursor w = Some e"
  shows "get_db_records w usr pwd hst db port s =
           (Inl (unbound_local ''cursor''),
            s\<lparr>trace := trace s @
                   [PgConnect usr pwd hst port db, PgCursor] @
                   (if is_Exception e
                    then [Log ERROR (''Error while fetching data from PostgreSQL: '' @ str_exn e)]
                    else []),
              connection := True, cursor := False\<rparr>)"
  using assms
  by (simp add: get_db_records_defs eval_simps seq_def try_except_def try_finally_def)

lemma get_db_records_query_fails:
  assumes "psycopg2_connect w usr pwd hst port db = None" and "connection_cursor w = None"
    and "cursor_execute w QUERY = Inl e" and "is_Exception e"
    and "cursor_close w = None" and "connection_close w = None"
  shows "get_db_records w usr pwd hst db port s =
           (Inr PNone,
            s\<lparr>trace := trace s @
                   [PgConnect usr pwd hst port db, PgCursor, PgExecute QUERY,
                    Log ERROR (''Error while fetching data from PostgreSQL: '' @ str_exn e),
                    CursorClose, ConnectionClose],
              connection := True, cursor := True\<rparr>)"
  using assms
  by (simp add: get_db_records_defs eval_simps seq_def try_except_def try_finally_def)

lemma get_db_records_ok:
  assumes "psycopg2_connect w usr pwd hst port db = None" and "connection_cursor w = None"
    and "cursor_execute w QUERY = Inr result_set" and "cursor_fetchall w = None"
    and "first_column result_set = Inr vs"
    and "cursor_close w = None" and "connection_close w = None"
  shows "get_db_records w usr pwd hst db port s =
           (Inr (PDict [(''alive_ssns'', PList vs)]),
            s\<lparr>trace := trace s @
                   [PgConnect usr pwd hst port db, PgCursor, PgExecute QUERY, PgFetchall,
                    CursorClose, ConnectionClose],
              connection := True, cursor := True\<rparr>)"
  using assms
  by (simp add: get_db_records_defs eval_simps seq_def try_except_def try_finally_def)

lemma first_column_select:
  "first_column (select_ssn_where_status rows v) =
     Inr (map (\<lambda>r. PStr (ssn r)) (filter (\<lambda>r. status r = v) rows))"
  by (induction rows) (simp_all add: select_ssn_where_status_def)

lemma sql_server_QUERY: "sql_server rows QUERY = Inr (select_ssn_where_status rows ''alive'')"
  by (simp add: sql_server_def QUERY_def select_prefix_def Let_def)

lemma get_db_records_None_needs_connection:
  assumes "fst (get_db_records w usr pwd hst db port s) = Inr v"
  shows "psycopg2_connect w usr pwd hst port db = None \<and> connection_cursor w = None"
proof (cases "psycopg2_connect w usr pwd hst port db")
  case (Some e)
  then show ?thesis using assms get_db_records_connect_fails[of w usr pwd hst port db e s] by simp
next
  case None
  show ?thesis
  proof (cases "connection_cursor w")
    case (Some e)
    then show ?thesis using assms None get_db_records_cursor_fails[of w usr pwd hst port db e s] by simp
  next
    case n: None
    with None show ?thesis by simp
  qed
qed

section \<open>The version extractor\<close>

lemma match_at_None_iff: "match_at s = None \<longleftrightarrow> \<not> version_at s"
  by (auto simp: match_at_def version_at_def Let_def takeWhile_eq_Nil_iff split: list.splits)

lemma match_at_exact:
  assumes "v \<noteq> []" and "\<forall>c\<in>set v. is_version_char c"
    and "rest = [] \<or> \<not> is_version_char (hd rest)"
  shows "match_at (marker @ v @ rest) = Some (v, rest)"
proof -
  have t: "takeWhile is_version_char (v @ rest) = v"
    using assms by (cases rest) (auto simp: takeWhile_append)
  have d: "dropWhile is_version_char (v @ rest) = rest"
    using assms by (cases rest) (auto simp: dropWhile_append)
  show ?thesis using assms(1) by (simp add: match_at_def Let_def t d)
qed

lemma re_findall_skip:
  "\<forall>i<length pre. \<not> version_at (drop i (pre @ s)) \<Longrightarrow> re_findall (pre @ s) = re_findall s"
proof (induction pre)
  case Nil
  then show ?case by simp
next
  case (Cons p ps)
  from Cons.prems have "\<not> version_at (drop 0 ((p # ps) @ s))" by blast
  then have m: "match_at (p # ps @ s) = None" by (simp add: match_at_None_iff)
  have "\<forall>i<length ps. \<not> version_at (drop i (ps @ s))"
  proof (intro allI impI)
    fix i assume "i < length ps"
    then have "Suc i < length (p # ps)" by simp
    with Cons.prems have "\<not> version_at (drop (Suc i) ((p # ps) @ s))" by blast
    then show "\<not> version_at (drop i (ps @ s))" by simp
  qed
  then have "re_findall (ps @ s) = re_findall s" by (rule Cons.IH)
  with m show ?case by simp
qed

lemma re_findall_first:
  assumes "v \<noteq> []" and "\<forall>c\<in>set v. is_version_char c"
    and "rest = [] \<or> \<not> is_version_char (hd rest)"
  shows "re_findall (marker @ v @ rest) = v # re_findall rest"
proof -
  obtain c cs where m: "marker @ v @ rest = c # cs"
    by (cases "marker @ v @ rest") (auto simp: marker_def)
  have "match_at (c # cs) = Some (v, rest)" using match_at_exact[OF assms] m by simp
  then have "re_findall (c # cs) = v # re_findall rest" by simp
  then show ?thesis using m by simp
qed

lemma re_findall_none:
  "\<forall>i<length s. \<not> version_at (drop i s) \<Longrightarrow> re_findall s = []"
  using re_findall_skip[of s "[]"] by simp

lemma short_text_no_version: "length s < length marker \<Longrightarrow> \<not> version_at (drop i s)"
  by (auto simp: version_at_def dest: arg_cong[where f = length])

text \<open>
  C4, as amended.  The extractor returns the run of digits and dots that follows the first
  place where the marker is followed by a digit or a dot; the run ends at the first
  character that is neither (whitespace or any other) or at the end of the text.
\<close>

theorem extract_first_version:
  assumes "dump = pre @ marker @ v @ rest"
    and "v \<noteq> []" and "\<forall>c\<in>set v. is_version_char c"
    and "rest = [] \<or> \<not> is_version_char (hd rest)"
    and "\<forall>i<length pre. \<not> version_at (drop i dump)"
  shows "extract_db_version dump = Inr v"
proof -
  have "re_findall dump = re_findall (marker @ v @ rest)"
    using assms(1,5) re_findall_skip[of pre "marker @ v @ rest"] by simp
  also have "\<dots> = v # re_findall rest" using assms(2-4) by (rule re_findall_first)
  finally show ?thesis by (simp add: extract_db_version_def index_at_def)
qed

theorem extract_first_version_witness:
  "extract_db_version (''-- '' @ marker @ ''15.3'' @ nl) = Inr ''15.3''"
proof -
  have 1: "''15.3'' \<noteq> []" by simp
  have 2: "\<forall>c\<in>set ''15.3''. is_version_char c" by (simp add: is_version_char_def)
  have 3: "nl = [] \<or> \<not> is_version_char (hd nl)" by (simp add: nl_def is_version_char_def)
  have 4: "\<forall>i<length ''-- ''. \<not> version_at (drop i (''-- '' @ marker @ ''15.3'' @ nl))"
    by (simp add: version_at_def marker_def All_less_Suc numeral_3_eq_3)
  show ?thesis by (rule extract_first_version[OF refl 1 2 3 4])
qed

theorem version_before_other_text_counterexample:
  "claimed_version ''Dumped from database version 9x Dumped from database version 15.3 '' = Some ''15.3''
   \<and> extract_db_version ''Dumped from database version 9x Dumped from database version 15.3 '' = Inr ''9''"
  by code_simp

text \<open>
  C8.  A text in which the marker is nowhere followed by a digit or a dot has no match:
  \<^verbatim>\<open>[0]\<close> on the empty list raises \<^verbatim>\<open>IndexError\<close>, nothing in the main block handles it,
  and the run ends there, before the client of the container runtime is created.
\<close>

theorem missing_version_crashes:
  assumes "\<forall>i<length dump. \<not> version_at (drop i dump)"
    and "index_at argv 1 = Inr tok"
    and "get_postgres_dump w tok initial = (Inr enc, s1)"
    and "decompress_and_decode_dump w enc s1 = (Inr dump, s2)"
  shows "re_findall dump = [] \<and>
         extract_db_version dump = Inl (Raised IndexError ''list index out of range'') \<and>
         run w argv = (Inl (Raised IndexError ''list index out of range''), trace s2)"
proof -
  have e: "re_findall dump = []" using assms(1) by (rule re_findall_none)
  then have x: "extract_db_version dump = Inl (Raised IndexError ''list index out of range'')"
    by (simp add: extract_db_version_def index_at_def)
  have "main w argv initial = (Inl (Raised IndexError ''list index out of range''), s2)"
    using assms(2-4) x by (rule main_stops_at_version)
  with e x show ?thesis by (simp add: run_def)
qed

theorem missing_version_crashes_witness:
  "run no_version_world demo_argv =
     (Inl (Raised IndexError ''list index out of range''),
      [Log INFO (''Getting PostgreSQL dump from '' @ problem_url ''abc123''),
       HttpGet (problem_url ''abc123''),
       Log INFO ''Decompressing and decoding dump''])"
proof -
  have 1: "\<forall>i<length ''-- PostgreSQL database dump''. \<not> version_at (drop i ''-- PostgreSQL database dump'')"
    by (intro allI impI short_text_no_version) (simp add: marker_def)
  have 3: "get_postgres_dump no_version_world ''abc123'' initial =
        (Inr (PStr demo_b64),
         initial\<lparr>trace := trace initial @
              [Log INFO (''Getting PostgreSQL dump from '' @ problem_url ''abc123''),
               HttpGet (problem_url ''abc123'')]\<rparr>)"
    by (rule demo_fetch) (simp_all add: no_version_world_def)
  have 4: "decompress_and_decode_dump no_version_world (PStr demo_b64)
             (initial\<lparr>trace := trace initial @
              [Log INFO (''Getting PostgreSQL dump from '' @ problem_url ''abc123''),
               HttpGet (problem_url ''abc123'')]\<rparr>) =
           (Inr ''-- PostgreSQL database dump'',
            initial\<lparr>trace := trace initial @
              [Log INFO (''Getting PostgreSQL dump from '' @ problem_url ''abc123''),
               HttpGet (problem_url ''abc123''),
               Log INFO ''Decompressing and decoding dump'']\<rparr>)"
  proof -
    have z: "zlib_decompress no_version_world demo_gzip 31 = Inr demo_utf8"
      by (rule demo_zlib) (simp add: no_version_world_def)
    have b: "b64decode no_version_world (PStr demo_b64) = Inr demo_gzip"
      by (simp add: no_version_world_def demo_world_def)
    have u: "bytes_decode no_version_world demo_utf8 ''utf-8'' = Inr ''-- PostgreSQL database dump''"
      by (simp add: no_version_world_def)
    show ?thesis by (simp add: decode_steps MAX_WBITS_def z b u)
  qed
  show ?thesis
    using missing_version_crashes[OF 1 demo_argv_token 3 4] by (simp add: initial_def)
qed

section \<open>The fetcher and the decoder\<close>

text \<open>
  C5, as amended.  On a status other than 200 the fetcher logs the response body and exits
  with status 1; on a 200 response whose body the JSON parser rejects it logs the parser's
  message and exits with status 1; on a 200 response whose body parses to an object with a
  \<^verbatim>\<open>dump\<close> key it returns the value under that key, unchanged.
\<close>

theorem fetch_contract:
  "(requests_get w (problem_url tok) = Inr r \<and> status_code r \<noteq> 200 \<longrightarrow>
      get_postgres_dump w tok s =
        (Inl (SystemExit 1),
         s\<lparr>trace := trace s @
              [Log INFO (''Getting PostgreSQL dump from '' @ problem_url tok),
               HttpGet (problem_url tok),
               Log ERROR (''Failed to get PostgreSQL dump from '' @ problem_url tok @ nl @ resp_text r)]\<rparr>))
   \<and> (requests_get w (problem_url tok) = Inr r \<and> status_code r = 200 \<and>
        json_loads w (resp_text r) = Inl e \<and> is_JSONDecodeError e \<longrightarrow>
      get_postgres_dump w tok s =
        (Inl (SystemExit 1),
         s\<lparr>trace := trace s @
              [Log INFO (''Getting PostgreSQL dump from '' @ problem_url tok),
               HttpGet (problem_url tok),
               Log ERROR (''Failed to parse json output from '' @ problem_url tok @ nl @ str_exn e)]\<rparr>))
   \<and> (requests_get w (problem_url tok) = Inr r \<and> status_code r = 200 \<and>
        json_loads w (resp_text r) = Inr v \<and> subscript v ''dump'' = Inr d \<longrightarrow>
      get_postgres_dump w tok s =
        (Inr d,
         s\<lparr>trace := trace s @
              [Log INFO (''Getting PostgreSQL dump from '' @ problem_url tok),
               HttpGet (problem_url tok)]\<rparr>))"
  using get_postgres_dump_status[of w tok r s] get_postgres_dump_parse[of w tok r e s]
    get_postgres_dump_parsed[of w tok r v s]
  by simp

theorem fetch_contract_witness:
  "get_postgres_dump server_error_world ''abc123'' initial =
     (Inl (SystemExit 1),
      initial\<lparr>trace :=
        [Log INFO (''Getting PostgreSQL dump from '' @ problem_url ''abc123''),
         HttpGet (problem_url ''abc123''),
         Log ERROR (''Failed to get PostgreSQL dump from '' @ problem_url ''abc123'' @ nl @
                    ''Internal Server Error'')]\<rparr>)
   \<and> get_postgres_dump html_world ''abc123'' initial =
     (Inl (SystemExit 1),
      initial\<lparr>trace :=
        [Log INFO (''Getting PostgreSQL dump from '' @ problem_url ''abc123''),
         HttpGet (problem_url ''abc123''),
         Log ERROR (''Failed to parse json output from '' @ problem_url ''abc123'' @ nl @
                    ''Expecting value: line 1 column 1 (char 0)'')]\<rparr>)
   \<and> get_postgres_dump demo_world ''abc123'' initial =
     (Inr (PStr demo_b64),
      initial\<lparr>trace :=
        [Log INFO (''Getting PostgreSQL dump from '' @ problem_url ''abc123''),
         HttpGet (problem_url ''abc123'')]\<rparr>)"
  using fetch_contract[where w = server_error_world and tok = "''abc123''" and s = initial
          and r = "\<lparr>status_code = 500, resp_text = ''Internal Server Error''\<rparr>"]
    fetch_contract[where w = html_world and tok = "''abc123''" and s = initial
          and r = "\<lparr>status_code = 200, resp_text = ''<html>''\<rparr>"
          and e = "Raised JSONDecodeError ''Expecting value: line 1 column 1 (char 0)''"]
    fetch_contract[where w = demo_world and tok = "''abc123''" and s = initial
          and r = "\<lparr>status_code = 200, resp_text = demo_body\<rparr>"
          and v = "PDict [(''dump'', PStr demo_b64)]" and d = "PStr demo_b64"]
  by (simp add: server_error_world_def html_world_def demo_world_def initial_def demo_body_def dq_def)

theorem parse_failure_body_not_logged_counterexample:
  "fst (get_postgres_dump html_world ''abc123'' initial) = Inl (SystemExit 1) \<and>
   requests_get html_world (problem_url ''abc123'') = Inr \<lparr>status_code = 200, resp_text = ''<html>''\<rparr> \<and>
   \<not> logged ''<html>'' (trace (snd (get_postgres_dump html_world ''abc123'' initial)))"
proof -
  have 1: "requests_get html_world (problem_url ''abc123'') =
             Inr \<lparr>status_code = 200, resp_text = ''<html>''\<rparr>"
    by (simp add: html_world_def)
  have 2: "json_loads html_world (resp_text \<lparr>status_code = 200, resp_text = ''<html>''\<rparr>) =
             Inl (Raised JSONDecodeError ''Expecting value: line 1 column 1 (char 0)'')"
    by (simp add: html_world_def demo_world_def demo_body_def)
  have 3: "get_postgres_dump html_world ''abc123'' initial =
     (Inl (SystemExit 1),
      initial\<lparr>trace := trace initial @
        [Log INFO (''Getting PostgreSQL dump from '' @ problem_url ''abc123''),
         HttpGet (problem_url ''abc123''),
         Log ERROR (''Failed to parse json output from '' @ problem_url ''abc123'' @ nl @
                    str_exn (Raised JSONDecodeError ''Expecting value: line 1 column 1 (char 0)''))]\<rparr>)"
    by (rule get_postgres_dump_parse[OF 1 _ 2]) simp_all
  have 4: "\<not> logged ''<html>''
        [Log INFO (''Getting PostgreSQL dump from '' @ problem_url ''abc123''),
         HttpGet (problem_url ''abc123''),
         Log ERROR (''Failed to parse json output from '' @ problem_url ''abc123'' @ nl @
                    ''Expecting value: line 1 column 1 (char 0)'')]"
    by code_simp
  show ?thesis using 1 3 4 by (simp add: initial_def)
qed





text \<open>
  C3.  Where the three decoders of the library undo the three encoders on the values
  that the encoding of \<open>x\<close> passes through, decoding the encoding of \<open>x\<close> gives \<open>x\<close>.
\<close>

theorem decode_encode_roundtrip:
  assumes "bytes_decode w (utf8_encode c x) ''utf-8'' = Inr x"
    and "zlib_decompress w (gzip_compress c (utf8_encode c x)) (16 + MAX_WBITS) =
           Inr (utf8_encode c x)"
    and "b64decode w (PStr (b64encode c (gzip_compress c (utf8_encode c x)))) =
           Inr (gzip_compress c (utf8_encode c x))"
  shows "fst (decompress_and_decode_dump w (PStr (encode c x)) s) = Inr x"
  using assms by (simp add: decode_steps encode_def)

theorem decode_encode_roundtrip_witness:
  "encode demo_codec demo_text = demo_b64 \<and>
   fst (decompress_and_decode_dump demo_world (PStr (encode demo_codec demo_text)) initial) =
     Inr demo_text"
proof -
  have u: "utf8_encode demo_codec demo_text = demo_utf8"
    by (simp add: demo_codec_def demo_utf8_def)
  have g: "gzip_compress demo_codec demo_utf8 = demo_gzip"
    by (simp add: demo_codec_def)
  have b: "b64encode demo_codec demo_gzip = demo_b64"
    by (simp add: demo_codec_def)
  have 1: "bytes_decode demo_world (utf8_encode demo_codec demo_text) ''utf-8'' = Inr demo_text"
    by (simp add: u demo_world_def)
  have 2: "zlib_decompress demo_world (gzip_compress demo_codec (utf8_encode demo_codec demo_text))
             (16 + MAX_WBITS) = Inr (utf8_encode demo_codec demo_text)"
    by (simp add: u g demo_world_def MAX_WBITS_def zlib_decompress_def gzip_magic_def demo_gzip_def)
  have 3: "b64decode demo_world
             (PStr (b64encode demo_codec (gzip_compress demo_codec (utf8_encode demo_codec demo_text)))) =
           Inr (gzip_compress demo_codec (utf8_encode demo_codec demo_text))"
    by (simp add: u g b demo_world_def)
  show ?thesis
    using decode_encode_roundtrip[OF 1 2 3, of initial] by (simp add: encode_def u g b)
qed

section \<open>The query executor\<close>

text \<open>
  C2.  When connecting, creating the cursor, executing the query, fetching and closing all
  succeed, against a server that holds the rows \<open>rows\<close> and answers the statement it is
  sent, the function returns the dictionary with the one key \<^verbatim>\<open>alive_ssns\<close> whose list
  holds, in the server's order, the \<^verbatim>\<open>ssn\<close> of exactly the rows whose status is \<^verbatim>\<open>alive\<close>.
  Every entry of the list is the \<^verbatim>\<open>ssn\<close> of a row whose status is \<^verbatim>\<open>alive\<close>: a row with
  another status contributes none.  The statement sent is the fixed one.
\<close>

theorem alive_ssns_result:
  assumes "psycopg2_connect w usr pwd hst port db = None" and "connection_cursor w = None"
    and "cursor_execute w = sql_server rows"
    and "cursor_fetchall w = None"
    and "cursor_close w = None" and "connection_close w = None"
  shows "fst (get_db_records w usr pwd hst db port s) =
           Inr (PDict [(''alive_ssns'',
                        PList (map (\<lambda>r. PStr (ssn r)) (filter (\<lambda>r. status r = ''alive'') rows)))]) \<and>
         (\<forall>vs. fst (get_db_records w usr pwd hst db port s) = Inr (PDict [(''alive_ssns'', PList vs)])
            \<longrightarrow> (\<forall>v\<in>set vs. \<exists>r\<in>set rows. status r = ''alive'' \<and> v = PStr (ssn r))) \<and>
         trace (snd (get_db_records w usr pwd hst db port s)) =
           trace s @
           [PgConnect usr pwd hst port db, PgCursor,
            PgExecute (''select ssn from public.criminal_records where status='' @ [CHR 0x27] @
                       ''alive'' @ [CHR 0x27]),
            PgFetchall, CursorClose, ConnectionClose]"
proof -
  have x: "cursor_execute w QUERY = Inr (select_ssn_where_status rows ''alive'')"
    using assms(3) by (simp add: sql_server_QUERY)
  have r: "get_db_records w usr pwd hst db port s =
           (Inr (PDict [(''alive_ssns'',
                         PList (map (\<lambda>r. PStr (ssn r)) (filter (\<lambda>r. status r = ''alive'') rows)))]),
            s\<lparr>trace := trace s @
                   [PgConnect usr pwd hst port db, PgCursor, PgExecute QUERY, PgFetchall,
                    CursorClose, ConnectionClose],
              connection := True, cursor := True\<rparr>)"
    by (rule get_db_records_ok[OF assms(1,2) x assms(4) first_column_select assms(5,6)])
  have 1: "fst (get_db_records w usr pwd hst db port s) =
           Inr (PDict [(''alive_ssns'',
                        PList (map (\<lambda>r. PStr (ssn r)) (filter (\<lambda>r. status r = ''alive'') rows)))])"
    by (simp add: r)
  have 2: "\<forall>vs. fst (get_db_records w usr pwd hst db port s) = Inr (PDict [(''alive_ssns'', PList vs)])
            \<longrightarrow> (\<forall>v\<in>set vs. \<exists>r\<in>set rows. status r = ''alive'' \<and> v = PStr (ssn r))"
  proof (intro allI impI ballI)
    fix vs v
    assume "fst (get_db_records w usr pwd hst db port s) = Inr (PDict [(''alive_ssns'', PList vs)])"
      and v: "v \<in> set vs"
    with 1 have "vs = map (\<lambda>r. PStr (ssn r)) (filter (\<lambda>r. status r = ''alive'') rows)" by simp
    with v obtain r where "r \<in> set (filter (\<lambda>r. status r = ''alive'') rows)" "v = PStr (ssn r)"
      by auto
    then show "\<exists>r\<in>set rows. status r = ''alive'' \<and> v = PStr (ssn r)" by auto
  qed
  have 3: "trace (snd (get_db_records w usr pwd hst db port s)) =
           trace s @
           [PgConnect usr pwd hst port db, PgCursor,
            PgExecute (''select ssn from public.criminal_records where status='' @ [CHR 0x27] @
                       ''alive'' @ [CHR 0x27]),
            PgFetchall, CursorClose, ConnectionClose]"
    by (simp add: r QUERY_def)
  from 1 2 3 show ?thesis by blast
qed

theorem alive_ssns_result_witness:
  "fst (get_db_records demo_world username username ''localhost'' db_name 5432 initial) =
     Inr (PDict [(''alive_ssns'', PList [PStr ''999-99-9999''])])"
proof -
  have 1: "psycopg2_connect demo_world username username ''localhost'' 5432 db_name = None"
    by (simp add: demo_world_def)
  have 2: "connection_cursor demo_world = None" by (simp add: demo_world_def)
  have 3: "cursor_execute demo_world = sql_server demo_table"
    by (simp add: demo_world_def)
  have 4: "cursor_fetchall demo_world = None" by (simp add: demo_world_def)
  have 5: "cursor_close demo_world = None" by (simp add: demo_world_def)
  have 6: "connection_close demo_world = None" by (simp add: demo_world_def)
  have "fst (get_db_records demo_world username username ''localhost'' db_name 5432 initial) =
          Inr (PDict [(''alive_ssns'',
                 PList (map (\<lambda>r. PStr (ssn r)) (filter (\<lambda>r. status r = ''alive'') demo_table)))])"
    using alive_ssns_result[OF 1 2 3 4 5 6, where s = initial] by (rule conjunct1)
  then show ?thesis by (simp add: demo_table_def)
qed

text \<open>
  C10.  When \<^verbatim>\<open>psycopg2.connect\<close> raises, \<^verbatim>\<open>connection\<close> is still unbound when the
  \<^verbatim>\<open>finally\<close> block reads it: the block raises \<^verbatim>\<open>UnboundLocalError\<close> (a \<^verbatim>\<open>NameError\<close>),
  and that is how the function ends, after the handler has logged the connection error
  when it is an \<^verbatim>\<open>Exception\<close>.  Whenever the function does return a value, the
  connection had been created.
\<close>

theorem connect_failure_unbound_local:
  "(\<forall>e. psycopg2_connect w usr pwd hst port db = Some e \<longrightarrow>
        fst (get_db_records w usr pwd hst db port s) = Inl (unbound_local ''connection'') \<and>
        trace (snd (get_db_records w usr pwd hst db port s)) =
          trace s @ PgConnect usr pwd hst port db #
            (if is_Exception e
             then [Log ERROR (''Error while fetching data from PostgreSQL: '' @ str_exn e)]
             else [])) \<and>
   (\<forall>s'. \<not> connection s' \<longrightarrow>
        get_db_records_finally w s' = (Inl (unbound_local ''connection''), s')) \<and>
   (\<forall>v. fst (get_db_records w usr pwd hst db port s) = Inr v \<longrightarrow>
        psycopg2_connect w usr pwd hst port db = None)"
proof (intro conjI allI impI)
  fix e
  assume "psycopg2_connect w usr pwd hst port db = Some e"
  from get_db_records_connect_fails[OF this, of s]
  show "fst (get_db_records w usr pwd hst db port s) = Inl (unbound_local ''connection'')"
    and "trace (snd (get_db_records w usr pwd hst db port s)) =
          trace s @ PgConnect usr pwd hst port db #
            (if is_Exception e
             then [Log ERROR (''Error while fetching data from PostgreSQL: '' @ str_exn e)]
             else [])"
    by simp_all
next
  fix s' :: state
  assume "\<not> connection s'"
  then show "get_db_records_finally w s' = (Inl (unbound_local ''connection''), s')"
    by (simp add: get_db_records_finally_def read_connection_def seq_def)
next
  fix v
  assume "fst (get_db_records w usr pwd hst db port s) = Inr v"
  then show "psycopg2_connect w usr pwd hst port db = None"
    using get_db_records_None_needs_connection by blast
qed

theorem connect_failure_unbound_local_witness:
  "fst (get_db_records connect_refused_world username username ''localhost'' db_name 5432 initial) =
     Inl (unbound_local ''connection'') \<and>
   trace (snd (get_db_records connect_refused_world username username ''localhost'' db_name 5432
                 initial)) =
     [PgConnect username username ''localhost'' 5432 db_name,
      Log ERROR ''Error while fetching data from PostgreSQL: Connection refused''] \<and>
   get_db_records_finally connect_refused_world initial =
     (Inl (unbound_local ''connection''), initial) \<and>
   fst (get_db_records query_fails_world username username ''localhost'' db_name 5432 initial) =
     Inr PNone \<and>
   psycopg2_connect query_fails_world username username ''localhost'' 5432 db_name = None"
proof -
  have q: "fst (get_db_records query_fails_world username username ''localhost'' db_name 5432 initial) =
             Inr PNone"
    by (subst get_db_records_query_fails[where
          e = "Raised (LibraryError ''psycopg2.errors.UndefinedTable'') ''relation does not exist''"])
       (simp_all add: query_fails_world_def demo_world_def)
  show ?thesis
    using connect_failure_unbound_local[where w = connect_refused_world and usr = username
            and pwd = username and hst = "''localhost''" and port = 5432 and db = db_name
            and s = initial]
      connect_failure_unbound_local[where w = query_fails_world and usr = username
            and pwd = username and hst = "''localhost''" and port = 5432 and db = db_name
            and s = initial] q
    by (simp add: connect_refused_world_def initial_def)
qed

text \<open>
  C7 at a refused connection.  The handler logs the error, but the function does not
  return: the \<^verbatim>\<open>finally\<close> block raises \<^verbatim>\<open>UnboundLocalError\<close>, the run stops and removes the
  container and ends with that exception, and nothing is submitted.
\<close>

theorem refused_connection_run:
  "run connect_refused_world demo_argv =
     (Inl (unbound_local ''connection''),
      [Log INFO (''Getting PostgreSQL dump from '' @ problem_url ''abc123''),
       HttpGet (problem_url ''abc123''),
       Log INFO ''Decompressing and decoding dump'',
       DockerFromEnv,
       ContainersRun ''postgres:15.3'' postgres_environment [(5432, 5432)],
       Sleep 2,
       Log INFO ''Launched PostgreSQL container c0ffee'',
       Log INFO ''Restoring PostgreSQL dump to c0ffee'',
       SubprocessRun [''docker'', ''exec'', ''-i'', ''c0ffee'', ''psql'', ''-d'', db_name, ''-U'',
                      username, ''-h'', ''localhost'', ''-p'', ''5432''] demo_utf8,
       Log INFO ''Restored PostgreSQL dump to c0ffee'',
       PgConnect username username ''localhost'' 5432 db_name,
       Log ERROR ''Error while fetching data from PostgreSQL: Connection refused'',
       Log INFO ''Stopping PostgreSQL container c0ffee'',
       ContainerStop ''c0ffee'',
       Log INFO ''Stopped PostgreSQL container c0ffee'',
       Log INFO ''Removing PostgreSQL container c0ffee'',
       ContainerRemove ''c0ffee''])"
proof -
  have b: "main_before connect_refused_world demo_argv initial =
             (Inr (''abc123'', demo_text, ''15.3''), demo_before)"
    by (rule demo_main_before) (simp_all add: connect_refused_world_def demo_world_def)
  have p: "containers_run connect_refused_world (''postgres:'' @ ''15.3'') postgres_environment
             [(5432, 5432)] = Inr ''c0ffee''"
    by (simp add: connect_refused_world_def demo_world_def)
  have c: "psycopg2_connect connect_refused_world username username ''localhost'' 5432 db_name =
             Some (Raised (LibraryError ''psycopg2.OperationalError'') ''Connection refused'')"
    by (simp add: connect_refused_world_def)
  have o: "str_encode connect_refused_world demo_text = Inr demo_utf8"
    "\<And>args input. subprocess_run connect_refused_world args input = Inr 0"
    "container_stop connect_refused_world ''c0ffee'' = None"
    "container_remove connect_refused_world ''c0ffee'' = None"
    by (simp_all add: connect_refused_world_def demo_world_def demo_utf8_def)
  show ?thesis
    by (simp add: run_def main_after_before[OF b] try_finally_def main_try_def seq_def
        provision_ok[OF p] restore_dump_def try_except_def read_container_def eval_simps o
        deal_with_results_def get_db_records_connect_fails[OF c] main_finally_bound
        demo_before_def Let_def)
qed

section \<open>Provisioning and cleanup\<close>

text \<open>
  C1, as amended.  In every run that got its container, whatever restore, query and submit
  did, \<^verbatim>\<open>stop\<close> is invoked exactly once, after everything else; when \<^verbatim>\<open>stop\<close> returns,
  \<^verbatim>\<open>remove\<close> is invoked exactly once and is the last thing the run does; when \<^verbatim>\<open>stop\<close>
  raises, that exception ends the run and \<^verbatim>\<open>remove\<close> is not invoked.
\<close>

theorem cleanup_after_provisioning:
  assumes "main_before w argv initial = (Inr (tok, dump, ver), s1)"
    and "containers_run w (''postgres:'' @ ver) postgres_environment [(5432, 5432)] = Inr c"
  shows "filter is_stop (snd (run w argv)) = [ContainerStop c] \<and>
         (container_stop w c = None \<longrightarrow>
            filter is_remove (snd (run w argv)) = [ContainerRemove c] \<and>
            drop (length (snd (run w argv)) - 4) (snd (run w argv)) =
              [ContainerStop c, Log INFO (''Stopped PostgreSQL container '' @ c),
               Log INFO (''Removing PostgreSQL container '' @ c), ContainerRemove c]) \<and>
         (\<forall>e. container_stop w c = Some e \<longrightarrow>
            filter is_remove (snd (run w argv)) = [] \<and>
            last (snd (run w argv)) = ContainerStop c \<and>
            fst (run w argv) = Inl e)"
proof -
  obtain r body where b: "filter is_cleanup body = []"
    and run: "run w argv =
             (case container_stop w c of
                Some e \<Rightarrow>
                  (Inl e, body @ [Log INFO (''Stopping PostgreSQL container '' @ c), ContainerStop c])
              | None \<Rightarrow>
                  (case container_remove w c of None \<Rightarrow> r | Some e \<Rightarrow> Inl e,
                   body @ [Log INFO (''Stopping PostgreSQL container '' @ c), ContainerStop c,
                           Log INFO (''Stopped PostgreSQL container '' @ c),
                           Log INFO (''Removing PostgreSQL container '' @ c), ContainerRemove c]))"
    using run_provisioned[OF assms] by blast
  from b have bs: "filter is_stop body = []" "filter is_remove body = []"
    by (auto simp: filter_empty_conv is_cleanup_def)
  show ?thesis
  proof (cases "container_stop w c")
    case None
    then show ?thesis using run bs by simp
  next
    case (Some e)
    then show ?thesis using run bs by simp
  qed
qed

theorem cleanup_after_provisioning_witness:
  "filter is_stop (snd (run demo_world demo_argv)) = [ContainerStop ''c0ffee''] \<and>
   filter is_remove (snd (run demo_world demo_argv)) = [ContainerRemove ''c0ffee''] \<and>
   last (snd (run demo_world demo_argv)) = ContainerRemove ''c0ffee'' \<and>
   filter is_stop (snd (run query_fails_world demo_argv)) = [ContainerStop ''c0ffee''] \<and>
   filter is_remove (snd (run query_fails_world demo_argv)) = [ContainerRemove ''c0ffee''] \<and>
   fst (run stop_fails_world demo_argv) =
     Inl (Raised (LibraryError ''docker.errors.APIError'') ''500 Server Error'') \<and>
   last (snd (run stop_fails_world demo_argv)) = ContainerStop ''c0ffee''"
proof -
  have b: "main_before demo_world demo_argv initial =
             (Inr (''abc123'', demo_text, ''15.3''), demo_before)"
    by (rule demo_main_before) (simp_all add: demo_world_def)
  have p: "containers_run demo_world (''postgres:'' @ ''15.3'') postgres_environment
             [(5432, 5432)] = Inr ''c0ffee''"
    by (simp add: demo_world_def)
  have b': "main_before query_fails_world demo_argv initial =
             (Inr (''abc123'', demo_text, ''15.3''), demo_before)"
    by (rule demo_main_before) (simp_all add: query_fails_world_def demo_world_def)
  have p': "containers_run query_fails_world (''postgres:'' @ ''15.3'') postgres_environment
             [(5432, 5432)] = Inr ''c0ffee''"
    by (simp add: query_fails_world_def demo_world_def)
  have b'': "main_before stop_fails_world demo_argv initial =
             (Inr (''abc123'', demo_text, ''15.3''), demo_before)"
    by (rule demo_main_before) (simp_all add: stop_fails_world_def demo_world_def)
  have p'': "containers_run stop_fails_world (''postgres:'' @ ''15.3'') postgres_environment
             [(5432, 5432)] = Inr ''c0ffee''"
    by (simp add: stop_fails_world_def demo_world_def)
  have s: "container_stop demo_world ''c0ffee'' = None"
    "container_stop query_fails_world ''c0ffee'' = None"
    "container_stop stop_fails_world ''c0ffee'' =
       Some (Raised (LibraryError ''docker.errors.APIError'') ''500 Server Error'')"
    by (simp_all add: query_fails_world_def stop_fails_world_def demo_world_def)
  have l: "\<And>tr. drop (length tr - 4) tr =
              [ContainerStop ''c0ffee'', Log INFO (''Stopped PostgreSQL container '' @ ''c0ffee''),
               Log INFO (''Removing PostgreSQL container '' @ ''c0ffee''), ContainerRemove ''c0ffee'']
            \<Longrightarrow> last tr = ContainerRemove ''c0ffee''"
  proof -
    fix tr :: "event list"
    assume d: "drop (length tr - 4) tr =
              [ContainerStop ''c0ffee'', Log INFO (''Stopped PostgreSQL container '' @ ''c0ffee''),
               Log INFO (''Removing PostgreSQL container '' @ ''c0ffee''), ContainerRemove ''c0ffee'']"
    have "last (drop (length tr - 4) tr) = last tr"
      by (rule last_drop) (use d in \<open>cases tr; auto\<close>)
    with d show "last tr = ContainerRemove ''c0ffee''" by simp
  qed
  show ?thesis
    using cleanup_after_provisioning[OF b p] cleanup_after_provisioning[OF b' p']
      cleanup_after_provisioning[OF b'' p''] s l
    by simp
qed

theorem remove_skipped_counterexample:
  "Print ''passed'' \<in> set (snd (run stop_fails_world demo_argv)) \<and>
   filter is_stop (snd (run stop_fails_world demo_argv)) = [ContainerStop ''c0ffee''] \<and>
   filter is_remove (snd (run stop_fails_world demo_argv)) = []"
  by (simp add: run_def main_def main_before_def main_try_def main_finally_def provision_def
      restore_dump_def deal_with_results_def submit_solution_def get_postgres_dump_def
      decompress_and_decode_dump_def get_db_records_defs read_container_def assign_container_def
      seq_def try_except_def try_finally_def eval_simps Let_def
      stop_fails_world_def demo_world_def demo_argv_def index_at_def initial_def
      problem_url_def demo_body_def dq_def MAX_WBITS_def demo_version first_column_select
      sql_server_QUERY demo_table_def demo_payload_def select_ssn_where_status_def
      zlib_decompress_def gzip_magic_def demo_gzip_def)

text \<open>
  C9.  When \<^verbatim>\<open>client.containers.run\<close> raises, \<^verbatim>\<open>container\<close> is never assigned.  The
  exception leaves the \<^verbatim>\<open>try\<close> block with no handler in its way; the first statement of
  the \<^verbatim>\<open>finally\<close> block then reads \<^verbatim>\<open>container\<close> and raises \<^verbatim>\<open>NameError\<close>, with which the
  run ends: neither \<^verbatim>\<open>stop\<close> nor \<^verbatim>\<open>remove\<close> nor anything else is invoked.
\<close>

theorem provisioning_failure:
  assumes "main_before w argv initial = (Inr (tok, dump, ver), s1)"
    and "containers_run w (''postgres:'' @ ver) postgres_environment [(5432, 5432)] = Inl e"
  shows "main_try w tok dump ver s1 =
           (Inl e, s1\<lparr>trace := trace s1 @
                       [ContainersRun (''postgres:'' @ ver) postgres_environment [(5432, 5432)]]\<rparr>) \<and>
         run w argv =
           (Inl (undefined_name ''container''),
            trace s1 @ [ContainersRun (''postgres:'' @ ver) postgres_environment [(5432, 5432)]])"
proof -
  have c1: "container s1 = None" using main_before_clean[OF assms(1)] by simp
  have t: "main_try w tok dump ver s1 =
           (Inl e, s1\<lparr>trace := trace s1 @
                       [ContainersRun (''postgres:'' @ ver) postgres_environment [(5432, 5432)]]\<rparr>)"
    using provision_fails[OF assms(2), of s1] by (simp add: main_try_def seq_def)
  have "main w argv initial = try_finally (main_try w tok dump ver) (main_finally w) s1"
    using assms(1) by (rule main_after_before)
  then have "run w argv =
           (Inl (undefined_name ''container''),
            trace s1 @ [ContainersRun (''postgres:'' @ ver) postgres_environment [(5432, 5432)]])"
    using t c1 by (simp add: run_def try_finally_def main_finally_unbound)
  with t show ?thesis by simp
qed

theorem provisioning_failure_witness:
  "run run_fails_world demo_argv =
     (Inl (undefined_name ''container''),
      [Log INFO (''Getting PostgreSQL dump from '' @ problem_url ''abc123''),
       HttpGet (problem_url ''abc123''),
       Log INFO ''Decompressing and decoding dump'',
       DockerFromEnv,
       ContainersRun ''postgres:15.3'' postgres_environment [(5432, 5432)]])"
proof -
  have b: "main_before run_fails_world demo_argv initial =
             (Inr (''abc123'', demo_text, ''15.3''), demo_before)"
    by (rule demo_main_before) (simp_all add: run_fails_world_def demo_world_def)
  have p: "containers_run run_fails_world (''postgres:'' @ ''15.3'') postgres_environment
             [(5432, 5432)] =
           Inl (Raised (LibraryError ''docker.errors.ImageNotFound'') ''404 Client Error'')"
    by (simp add: run_fails_world_def)
  show ?thesis
    using provisioning_failure[OF b p] by (simp add: demo_before_def)
qed

end
